theory Spec2Isabelle
  imports Main "HOL-Library.Word" "HOL-Library.Multiset"
begin

section \<open>Data model of schedulers.go\<close>

text \<open>
  Every integer field of the Go structs is an \<^verbatim>\<open>int64\<close>: a 64-bit word whose
  arithmetic wraps around and whose comparisons are signed (\<open><s\<close>, \<open>\<le>s\<close>).
\<close>

type_synonym int64 = "64 word"

record Process =
  ProcessID :: string
  ArrivalTime :: int64
  BurstDuration :: int64
  Priority :: int64
  RemainingTime :: int64
  Index :: int64

record TimeSlice =
  PID :: string
  Start :: int64
  Stop :: int64

text \<open>
  The \<^verbatim>\<open>float64\<close> values of the program are kept as the expressions the code
  evaluates: a conversion of an integer value (\<^verbatim>\<open>float64(x)\<close>; the zero value of a
  \<^verbatim>\<open>float64\<close> variable is \<open>Float64 0\<close>), a sum and a quotient. Rounding is
  IEEE-754's business and no part of the model. A quotient by zero does not panic in Go:
  \<open>FDiv (Float64 0) (Float64 0)\<close> is the expression \<^verbatim>\<open>0.0 / 0.0\<close>, a NaN, and
  \<open>FDiv (Float64 n) (Float64 0)\<close> with \<open>n > 0\<close> is \<^verbatim>\<open>+Inf\<close>.
\<close>

datatype float64 =
    Float64 int
  | FAdd float64 float64
  | FDiv float64 float64

text \<open>
  A row of the table is a \<^verbatim>\<open>[]string\<close> built with \<^verbatim>\<open>fmt.Sprint\<close>. A cell keeps the
  value that was handed to \<^verbatim>\<open>fmt.Sprint\<close>; the decimal rendering belongs to package
  \<^verbatim>\<open>fmt\<close>.
\<close>

datatype cell =
    Sprint_string string
  | Sprint_int64 int64

type_synonym row = "cell list"

text \<open>
  The three renderers \<^verbatim>\<open>outputTitle\<close>, \<^verbatim>\<open>outputGantt\<close> and \<^verbatim>\<open>outputSchedule\<close>
  write to the \<^verbatim>\<open>io.Writer\<close>. A run of a policy is observed as the sequence of
  renderer calls it makes, with their arguments.
\<close>

datatype render_call =
    outputTitle string
  | outputGantt "TimeSlice list"
  | outputSchedule "row list" float64 float64 float64

text \<open>
  The failures that section 7 of the specification names. No function of schedulers.go
  has an error result, and none of its operations can panic (every index is below the
  length of its slice, and a \<^verbatim>\<open>float64\<close> division by zero yields NaN or Inf). The
  policies below still return \<open>error + render_call list\<close>, so that "fails with" and
  "returns" are both statements about the model.
\<close>

datatype error =
    EmptyBatchError
  | InvalidBurstError
  | InvalidArrivalError
  | DuplicateProcessIDError

subsection \<open>Reading a row\<close>

text \<open>Column \<open>k\<close> of a row, when the row has such a column and it holds an integer.\<close>

definition column :: "row \<Rightarrow> nat \<Rightarrow> int64 option" where
  "column r k =
     (if k < length r
      then (case r ! k of Sprint_int64 x \<Rightarrow> Some x | Sprint_string s \<Rightarrow> None)
      else None)"

text \<open>
  The columns in the order in which all four policies fill them: ProcessID, Priority,
  BurstDuration, ArrivalTime, WaitingTime, TurnaroundTime and, where the policy writes
  a seventh cell, CompletionTime.
\<close>

definition row_ProcessID :: "row \<Rightarrow> string option" where
  "row_ProcessID r =
     (case r of Sprint_string s # rest \<Rightarrow> Some s | _ \<Rightarrow> None)"

definition row_Priority :: "row \<Rightarrow> int64 option" where
  "row_Priority r = column r 1"

definition row_BurstDuration :: "row \<Rightarrow> int64 option" where
  "row_BurstDuration r = column r 2"

definition row_ArrivalTime :: "row \<Rightarrow> int64 option" where
  "row_ArrivalTime r = column r 3"

definition row_WaitingTime :: "row \<Rightarrow> int64 option" where
  "row_WaitingTime r = column r 4"

definition row_TurnaroundTime :: "row \<Rightarrow> int64 option" where
  "row_TurnaroundTime r = column r 5"

definition row_CompletionTime :: "row \<Rightarrow> int64 option" where
  "row_CompletionTime r = column r 6"

section \<open>sort.Slice\<close>

text \<open>
  \<^verbatim>\<open>sort.Slice(processes, less)\<close> is library code. Its contract: afterwards the slice
  holds the same elements, and no element is less, by the closure \<open>lessf\<close>, than an
  element that stands before it. The order of elements that the closure does not tell
  apart is not fixed (the sort is not stable). The policies take the sorting function as
  a parameter \<open>srt\<close>; \<open>sort_Slice_ok\<close> is the contract at one input.
\<close>

type_synonym sorter = "(Process \<Rightarrow> Process \<Rightarrow> bool) \<Rightarrow> Process list \<Rightarrow> Process list"

definition sort_Slice_ok :: "sorter \<Rightarrow> (Process \<Rightarrow> Process \<Rightarrow> bool) \<Rightarrow> Process list \<Rightarrow> bool" where
  "sort_Slice_ok srt lessf xs =
     (mset (srt lessf xs) = mset xs \<and> sorted_wrt (\<lambda>a b. \<not> lessf b a) (srt lessf xs))"

text \<open>The closure all three sorting policies pass: compare by BurstDuration.\<close>

definition less_burst :: "Process \<Rightarrow> Process \<Rightarrow> bool" where
  "less_burst p q = (BurstDuration p <s BurstDuration q)"

text \<open>
  A sorter that meets the contract, to run the policies on concrete batches: insertion
  sort, placing each element before the first one that \<open>lessf\<close> puts after it.
\<close>

fun insert_left :: "('a \<Rightarrow> 'a \<Rightarrow> bool) \<Rightarrow> 'a \<Rightarrow> 'a list \<Rightarrow> 'a list" where
  "insert_left lessf x [] = [x]"
| "insert_left lessf x (y # ys) =
     (if lessf x y then x # y # ys else y # insert_left lessf x ys)"

definition insertion_sort :: "('a \<Rightarrow> 'a \<Rightarrow> bool) \<Rightarrow> 'a list \<Rightarrow> 'a list" where
  "insertion_sort lessf xs = foldl (\<lambda>acc x. insert_left lessf x acc) [] xs"

section \<open>FCFSSchedule\<close>

text \<open>The local variables of the three loop-and-clock policies.\<close>

record vars =
  serviceTime :: int64
  totalWait :: float64
  totalTurnaround :: float64
  lastCompletion :: float64
  waitingTime :: int64
  schedule :: "row list"
  gantt :: "TimeSlice list"

text \<open>
  The \<^verbatim>\<open>var (...)\<close> block: numeric variables start at their zero value,
  \<open>schedule\<close> is \<^verbatim>\<open>make([][]string, len(processes))\<close> (that many nil rows) and
  \<open>gantt\<close> is empty.
\<close>

definition init_vars :: "Process list \<Rightarrow> vars" where
  "init_vars processes =
     \<lparr>serviceTime = 0, totalWait = Float64 0, totalTurnaround = Float64 0,
      lastCompletion = Float64 0, waitingTime = 0,
      schedule = replicate (length processes) [], gantt = []\<rparr>"

text \<open>The seven cells written to \<open>schedule[i]\<close>.\<close>

definition schedule_row :: "Process \<Rightarrow> int64 \<Rightarrow> int64 \<Rightarrow> int64 \<Rightarrow> row" where
  "schedule_row p waiting turnaround completion =
     [Sprint_string (ProcessID p), Sprint_int64 (Priority p),
      Sprint_int64 (BurstDuration p), Sprint_int64 (ArrivalTime p),
      Sprint_int64 waiting, Sprint_int64 turnaround, Sprint_int64 completion]"

text \<open>The body of the loop, lines 68 to 96, at index \<open>i\<close>.\<close>

definition FCFS_body :: "Process list \<Rightarrow> vars \<Rightarrow> nat \<Rightarrow> vars" where
  "FCFS_body processes v i =
     (let waitingTime' =
            (if 0 <s ArrivalTime (processes ! i)
             then serviceTime v - ArrivalTime (processes ! i)
             else waitingTime v);
          totalWait' = FAdd (totalWait v) (Float64 (sint waitingTime'));
          start = waitingTime' + ArrivalTime (processes ! i);
          turnaround = BurstDuration (processes ! i) + waitingTime';
          totalTurnaround' = FAdd (totalTurnaround v) (Float64 (sint turnaround));
          completion = BurstDuration (processes ! i) + ArrivalTime (processes ! i) + waitingTime';
          lastCompletion' = Float64 (sint completion);
          schedule' = (schedule v)[i := schedule_row (processes ! i) waitingTime' turnaround completion];
          serviceTime' = serviceTime v + BurstDuration (processes ! i);
          gantt' = gantt v @ [\<lparr>PID = ProcessID (processes ! i), Start = start, Stop = serviceTime'\<rparr>]
      in \<lparr>serviceTime = serviceTime', totalWait = totalWait',
          totalTurnaround = totalTurnaround', lastCompletion = lastCompletion',
          waitingTime = waitingTime', schedule = schedule', gantt = gantt'\<rparr>)"

text \<open>\<^verbatim>\<open>for i := range processes\<close> runs the body at \<open>i = 0, ..., len(processes) - 1\<close>.\<close>

definition FCFS_loop :: "Process list \<Rightarrow> vars" where
  "FCFS_loop processes =
     foldl (FCFS_body processes) (init_vars processes) [0..<length processes]"

text \<open>Lines 99 to 106 follow the loop: the aggregates and the three renderer calls.\<close>

definition FCFSSchedule :: "string \<Rightarrow> Process list \<Rightarrow> error + render_call list" where
  "FCFSSchedule title processes =
     (let v = FCFS_loop processes;
          count = Float64 (int (length processes));
          aveWait = FDiv (totalWait v) count;
          aveTurnaround = FDiv (totalTurnaround v) count;
          aveThroughput = FDiv count (lastCompletion v)
      in Inr [outputTitle title, outputGantt (gantt v),
              outputSchedule (schedule v) aveWait aveTurnaround aveThroughput])"

section \<open>SJFSchedule\<close>

text \<open>The body of the loop, lines 127 to 159: as above, with the clamp of lines 129 to 131.\<close>

definition SJF_body :: "Process list \<Rightarrow> vars \<Rightarrow> nat \<Rightarrow> vars" where
  "SJF_body processes v i =
     (let waitingTime' =
            (if 0 <s ArrivalTime (processes ! i)
             then (let w = serviceTime v - ArrivalTime (processes ! i)
                   in if w <s 0 then 0 else w)
             else waitingTime v);
          totalWait' = FAdd (totalWait v) (Float64 (sint waitingTime'));
          start = waitingTime' + ArrivalTime (processes ! i);
          turnaround = BurstDuration (processes ! i) + waitingTime';
          totalTurnaround' = FAdd (totalTurnaround v) (Float64 (sint turnaround));
          completion = BurstDuration (processes ! i) + ArrivalTime (processes ! i) + waitingTime';
          lastCompletion' = Float64 (sint completion);
          schedule' = (schedule v)[i := schedule_row (processes ! i) waitingTime' turnaround completion];
          serviceTime' = serviceTime v + BurstDuration (processes ! i);
          gantt' = gantt v @ [\<lparr>PID = ProcessID (processes ! i), Start = start, Stop = serviceTime'\<rparr>]
      in \<lparr>serviceTime = serviceTime', totalWait = totalWait',
          totalTurnaround = totalTurnaround', lastCompletion = lastCompletion',
          waitingTime = waitingTime', schedule = schedule', gantt = gantt'\<rparr>)"

definition SJF_loop :: "Process list \<Rightarrow> vars" where
  "SJF_loop processes =
     foldl (SJF_body processes) (init_vars processes) [0..<length processes]"

text \<open>
  Lines 121 to 123 sort the caller's slice in place; the loop and the renderers then see
  the sorted slice.
\<close>

definition SJFSchedule :: "sorter \<Rightarrow> string \<Rightarrow> Process list \<Rightarrow> error + render_call list" where
  "SJFSchedule srt title processes0 =
     (let processes = srt less_burst processes0;
          v = SJF_loop processes;
          count = Float64 (int (length processes));
          aveWait = FDiv (totalWait v) count;
          aveTurnaround = FDiv (totalTurnaround v) count;
          aveThroughput = FDiv count (lastCompletion v)
      in Inr [outputTitle title, outputGantt (gantt v),
              outputSchedule (schedule v) aveWait aveTurnaround aveThroughput])"

section \<open>SJFPrioritySchedule\<close>

text \<open>The body of the loop, lines 190 to 226: lines 190 to 192 move the clock first.\<close>

definition SJFPriority_body :: "Process list \<Rightarrow> vars \<Rightarrow> nat \<Rightarrow> vars" where
  "SJFPriority_body processes v i =
     (let serviceTime0 =
            (if serviceTime v <s ArrivalTime (processes ! i)
             then ArrivalTime (processes ! i)
             else serviceTime v);
          waitingTime' =
            (if 0 <s ArrivalTime (processes ! i)
             then (let w = serviceTime0 - ArrivalTime (processes ! i)
                   in if w <s 0 then 0 else w)
             else waitingTime v);
          totalWait' = FAdd (totalWait v) (Float64 (sint waitingTime'));
          start = waitingTime' + ArrivalTime (processes ! i);
          turnaround = BurstDuration (processes ! i) + waitingTime';
          totalTurnaround' = FAdd (totalTurnaround v) (Float64 (sint turnaround));
          completion = BurstDuration (processes ! i) + ArrivalTime (processes ! i) + waitingTime';
          lastCompletion' = Float64 (sint completion);
          schedule' = (schedule v)[i := schedule_row (processes ! i) waitingTime' turnaround completion];
          serviceTime' = serviceTime0 + BurstDuration (processes ! i);
          gantt' = gantt v @ [\<lparr>PID = ProcessID (processes ! i), Start = start, Stop = serviceTime'\<rparr>]
      in \<lparr>serviceTime = serviceTime', totalWait = totalWait',
          totalTurnaround = totalTurnaround', lastCompletion = lastCompletion',
          waitingTime = waitingTime', schedule = schedule', gantt = gantt'\<rparr>)"

definition SJFPriority_loop :: "Process list \<Rightarrow> vars" where
  "SJFPriority_loop processes =
     foldl (SJFPriority_body processes) (init_vars processes) [0..<length processes]"

definition SJFPrioritySchedule :: "sorter \<Rightarrow> string \<Rightarrow> Process list \<Rightarrow> error + render_call list" where
  "SJFPrioritySchedule srt title processes0 =
     (let processes = srt less_burst processes0;
          v = SJFPriority_loop processes;
          count = Float64 (int (length processes));
          aveWait = FDiv (totalWait v) count;
          aveTurnaround = FDiv (totalTurnaround v) count;
          aveThroughput = FDiv count (lastCompletion v)
      in Inr [outputTitle title, outputGantt (gantt v),
              outputSchedule (schedule v) aveWait aveTurnaround aveThroughput])"

section \<open>RRSchedule\<close>

text \<open>
  The arrays and counters of lines 242 to 250; \<open>rows\<close> is the variable
  \<^verbatim>\<open>schedule\<close>, \<open>waiting\<close> the array \<^verbatim>\<open>waitingTime\<close> and \<open>totalTurnaroundTime\<close>
  the \<^verbatim>\<open>int64\<close> counter \<^verbatim>\<open>totalTurnaround\<close> of this function.
\<close>

record rr_vars =
  remainingTime :: "int64 list"
  arrivalTime :: "int64 list"
  waiting :: "int64 list"
  turnaroundTime :: "int64 list"
  rows :: "row list"
  currentTime :: int64
  totalTurnaroundTime :: int64
  totalWaiting :: int64

definition rr_init :: "nat \<Rightarrow> rr_vars" where
  "rr_init n =
     \<lparr>remainingTime = replicate n 0, arrivalTime = replicate n 0,
      waiting = replicate n 0, turnaroundTime = replicate n 0,
      rows = replicate n [], currentTime = 0, totalTurnaroundTime = 0,
      totalWaiting = 0\<rparr>"

text \<open>Lines 259 to 262.\<close>

definition RR_fill_body :: "Process list \<Rightarrow> rr_vars \<Rightarrow> nat \<Rightarrow> rr_vars" where
  "RR_fill_body processes v i =
     v\<lparr>remainingTime := (remainingTime v)[i := BurstDuration (processes ! i)],
       arrivalTime := (arrivalTime v)[i := ArrivalTime (processes ! i)]\<rparr>"

text \<open>
  Lines 268 to 275: one step of the scan, on the flag \<open>done\<close> and the variables.
\<close>

definition RR_scan_body :: "bool \<times> rr_vars \<Rightarrow> nat \<Rightarrow> bool \<times> rr_vars" where
  "RR_scan_body dv i =
     (let done = fst dv; v = snd dv
      in if 0 <s remainingTime v ! i
         then (let currentTime' = currentTime v + remainingTime v ! i
               in (False,
                   v\<lparr>currentTime := currentTime',
                     turnaroundTime := (turnaroundTime v)[i := currentTime' - arrivalTime v ! i],
                     remainingTime := (remainingTime v)[i := 0]\<rparr>))
         else (done, v))"

text \<open>Lines 265 to 276: one pass, \<open>done\<close> starting as true.\<close>

definition RR_pass :: "nat \<Rightarrow> rr_vars \<Rightarrow> bool \<times> rr_vars" where
  "RR_pass n v = foldl RR_scan_body (True, v) [0..<n]"

text \<open>
  Lines 264 to 281: \<^verbatim>\<open>for { ... if done { break } }\<close>. Nothing in the text of the
  loop bounds the number of passes, so the model counts them: \<open>RR_passes k\<close> makes at
  most \<open>k\<close> passes and is \<open>None\<close> when the loop has not been left by then.
\<close>

fun RR_passes :: "nat \<Rightarrow> nat \<Rightarrow> rr_vars \<Rightarrow> rr_vars option" where
  "RR_passes 0 n v = None"
| "RR_passes (Suc k) n v =
     (case RR_pass n v of
        (done, v') \<Rightarrow> if done then Some v' else RR_passes k n v')"

text \<open>Lines 284 to 295; the row has six cells, CompletionTime is not among them.\<close>

definition RR_row_body :: "Process list \<Rightarrow> rr_vars \<Rightarrow> nat \<Rightarrow> rr_vars" where
  "RR_row_body processes v i =
     (let waiting' = (waiting v)[i := turnaroundTime v ! i - BurstDuration (processes ! i)];
          totalTurnaround' = totalTurnaroundTime v + turnaroundTime v ! i;
          totalWaiting' = totalWaiting v + waiting' ! i;
          rows' = (rows v)[i :=
            [Sprint_string (ProcessID (processes ! i)), Sprint_int64 (Priority (processes ! i)),
             Sprint_int64 (BurstDuration (processes ! i)), Sprint_int64 (ArrivalTime (processes ! i)),
             Sprint_int64 (waiting' ! i), Sprint_int64 (turnaroundTime v ! i)]]
      in v\<lparr>waiting := waiting', totalTurnaroundTime := totalTurnaround',
           totalWaiting := totalWaiting', rows := rows'\<rparr>)"

text \<open>
  The whole function, with the bound \<open>k\<close> on the passes of the middle loop. RRSchedule
  calls \<^verbatim>\<open>outputTitle\<close> and \<^verbatim>\<open>outputSchedule\<close> only.
\<close>

definition RRSchedule :: "nat \<Rightarrow> sorter \<Rightarrow> string \<Rightarrow> Process list \<Rightarrow> (error + render_call list) option" where
  "RRSchedule k srt title processes0 =
     (let n = length processes0;
          processes = srt less_burst processes0;
          v0 = foldl (RR_fill_body processes) (rr_init n) [0..<n]
      in case RR_passes k n v0 of
           None \<Rightarrow> None
         | Some v1 \<Rightarrow>
             (let v = foldl (RR_row_body processes) v1 [0..<n];
                  avgTurnaround = FDiv (Float64 (sint (totalTurnaroundTime v))) (Float64 (int n));
                  avgWaiting = FDiv (Float64 (sint (totalWaiting v))) (Float64 (int n));
                  throughput = FDiv (Float64 (int n)) (Float64 (sint (currentTime v)))
              in Some (Inr [outputTitle title,
                            outputSchedule (rows v) avgWaiting avgTurnaround throughput])))"

section \<open>Auxiliary definitions\<close>

subsection \<open>Properties of rows\<close>

text \<open>
  The two identities of the metrics, read off a row: both need all five numeric cells,
  \<open>turnaround_identity\<close> only three of them. \<open>nonneg_waiting\<close>: the row has a
  WaitingTime and it is not negative (signed comparison).
\<close>

definition both_identities :: "row \<Rightarrow> bool" where
  "both_identities r =
     (case (row_ArrivalTime r, row_BurstDuration r, row_WaitingTime r,
            row_TurnaroundTime r, row_CompletionTime r) of
        (Some a, Some b, Some w, Some t, Some c) \<Rightarrow> c = a + w + b \<and> t = w + b
      | _ \<Rightarrow> False)"

definition turnaround_identity :: "row \<Rightarrow> bool" where
  "turnaround_identity r =
     (case (row_BurstDuration r, row_WaitingTime r, row_TurnaroundTime r) of
        (Some b, Some w, Some t) \<Rightarrow> t = w + b
      | _ \<Rightarrow> False)"

definition nonneg_waiting :: "row \<Rightarrow> bool" where
  "nonneg_waiting r = (case row_WaitingTime r of Some w \<Rightarrow> 0 \<le>s w | None \<Rightarrow> False)"

subsection \<open>The words of the specification\<close>

text \<open>
  Section 4.2: a waiting time is "clamped to a minimum of 0".
\<close>

definition clamp0 :: "int64 \<Rightarrow> int64" where
  "clamp0 w = (if w <s 0 then 0 else w)"

text \<open>
  Section 4.3: before the waiting time of process \<open>i\<close> is computed, "if serviceTime <
  ArrivalTime, the clock is advanced: serviceTime = ArrivalTime".
\<close>

definition advance_clock :: "Process list \<Rightarrow> nat \<Rightarrow> vars \<Rightarrow> vars" where
  "advance_clock ps i v =
     v\<lparr>serviceTime :=
         (if serviceTime v <s ArrivalTime (ps ! i) then ArrivalTime (ps ! i) else serviceTime v)\<rparr>"

text \<open>
  Section 4.1: averages are the totals over the number of processes, throughput is the
  number of processes over the last completion; then the title, the timeline and the
  table are rendered, in this order.
\<close>

definition report :: "string \<Rightarrow> Process list \<Rightarrow> vars \<Rightarrow> error + render_call list" where
  "report title processes v =
     (let count = Float64 (int (length processes));
          aveWait = FDiv (totalWait v) count;
          aveTurnaround = FDiv (totalTurnaround v) count;
          aveThroughput = FDiv count (lastCompletion v)
      in Inr [outputTitle title, outputGantt (gantt v),
              outputSchedule (schedule v) aveWait aveTurnaround aveThroughput])"

subsection \<open>Concrete batches\<close>

text \<open>
  A process descriptor as the scenarios of the specification give it: identifier,
  arrival, burst and priority. The two bookkeeping fields, which no policy reads, are 0.
\<close>

definition process :: "string \<Rightarrow> int64 \<Rightarrow> int64 \<Rightarrow> int64 \<Rightarrow> Process" where
  "process pid arrival burst prio =
     \<lparr>ProcessID = pid, ArrivalTime = arrival, BurstDuration = burst, Priority = prio,
      RemainingTime = 0, Index = 0\<rparr>"

subsection \<open>The loops, iteration by iteration\<close>

text \<open>
  The variables of the three clock loops after their first \<open>k\<close> iterations.
\<close>

definition FCFS_at :: "Process list \<Rightarrow> nat \<Rightarrow> vars" where
  "FCFS_at ps k = foldl (FCFS_body ps) (init_vars ps) [0..<k]"

definition SJF_at :: "Process list \<Rightarrow> nat \<Rightarrow> vars" where
  "SJF_at ps k = foldl (SJF_body ps) (init_vars ps) [0..<k]"

definition SJFPriority_at :: "Process list \<Rightarrow> nat \<Rightarrow> vars" where
  "SJFPriority_at ps k = foldl (SJFPriority_body ps) (init_vars ps) [0..<k]"

text \<open>
  What iteration \<open>i\<close> of a clock loop writes, in terms of the variables \<open>v\<close> it
  leaves: the row put into \<open>schedule[i]\<close> and the slice appended to \<open>gantt\<close>.
\<close>

definition row_after :: "Process list \<Rightarrow> nat \<Rightarrow> vars \<Rightarrow> row" where
  "row_after ps i v =
     schedule_row (ps ! i) (waitingTime v) (BurstDuration (ps ! i) + waitingTime v)
       (BurstDuration (ps ! i) + ArrivalTime (ps ! i) + waitingTime v)"

definition slice_after :: "Process list \<Rightarrow> nat \<Rightarrow> vars \<Rightarrow> TimeSlice" where
  "slice_after ps i v =
     \<lparr>PID = ProcessID (ps ! i), Start = waitingTime v + ArrivalTime (ps ! i), Stop = serviceTime v\<rparr>"

text \<open>
  RRSchedule. \<open>run_now r\<close> is the time a process with remaining time \<open>r\<close> runs when
  the scan reaches it: all of \<open>r\<close> when positive, nothing otherwise.
  \<open>clock_after c0 rem k\<close> is the clock once the scan has passed the first \<open>k\<close>
  entries of \<open>rem\<close>, and \<open>scanned k v\<close> the variables at that point.
\<close>

definition run_now :: "int64 \<Rightarrow> int64" where
  "run_now r = (if 0 <s r then r else 0)"

definition clock_after :: "int64 \<Rightarrow> int64 list \<Rightarrow> nat \<Rightarrow> int64" where
  "clock_after c0 rem k = c0 + sum_list (map run_now (take k rem))"

definition scanned :: "nat \<Rightarrow> rr_vars \<Rightarrow> rr_vars" where
  "scanned k v =
     v\<lparr>currentTime := clock_after (currentTime v) (remainingTime v) k,
       turnaroundTime :=
         map (\<lambda>i. if i < k \<and> 0 <s remainingTime v ! i
                   then clock_after (currentTime v) (remainingTime v) (Suc i) - arrivalTime v ! i
                   else turnaroundTime v ! i) [0..<length (turnaroundTime v)],
       remainingTime :=
         map (\<lambda>i. if i < k \<and> 0 <s remainingTime v ! i then 0 else remainingTime v ! i)
           [0..<length (remainingTime v)]\<rparr>"

text \<open>
  The same for the slice RRSchedule is called with, sorted to \<open>qs\<close>: the clock after
  the first \<open>k\<close> processes, the turnaround of process \<open>i\<close>, and the six cells of
  its row given its turnaround \<open>t\<close>.
\<close>

definition RR_clock :: "Process list \<Rightarrow> nat \<Rightarrow> int64" where
  "RR_clock qs k = sum_list (map (\<lambda>i. run_now (BurstDuration (qs ! i))) [0..<k])"

definition RR_turnaround :: "Process list \<Rightarrow> nat \<Rightarrow> int64" where
  "RR_turnaround qs i =
     (if 0 <s BurstDuration (qs ! i) then RR_clock qs (Suc i) - ArrivalTime (qs ! i) else 0)"

definition RR_row :: "Process \<Rightarrow> int64 \<Rightarrow> row" where
  "RR_row p t =
     [Sprint_string (ProcessID p), Sprint_int64 (Priority p), Sprint_int64 (BurstDuration p),
      Sprint_int64 (ArrivalTime p), Sprint_int64 (t - BurstDuration p), Sprint_int64 t]"

section \<open>The loops in closed form\<close>

subsection \<open>Lists and sums\<close>

lemma map_upt_update:
  "(map f [0..<n])[k := x] = map (\<lambda>i. if i = k then x else f i) [0..<n]"
  by (cases "k < n") (auto intro!: nth_equalityI simp: nth_list_update)

lemma sum_list_all_zero:
  "\<forall>x \<in> set xs. f x = (0::int64) \<Longrightarrow> sum_list (map f xs) = 0"
  by (induction xs) simp_all

lemma sum_list_mset_cong:
  fixes f :: "'a \<Rightarrow> int64"
  assumes "mset xs = mset ys"
  shows "sum_list (map f xs) = sum_list (map f ys)"
proof -
  have "sum_list (map f xs) = sum_mset (image_mset f (mset xs))"
    by (metis mset_map sum_mset_sum_list)
  also have "\<dots> = sum_mset (image_mset f (mset ys))"
    using assms by simp
  also have "\<dots> = sum_list (map f ys)"
    by (metis mset_map sum_mset_sum_list)
  finally show ?thesis .
qed

lemma sint_sum_list:
  assumes "\<forall>b\<in>set bs. 0 \<le>s (b::int64)" and "(\<Sum>b\<leftarrow>bs. sint b) < 2 ^ 63"
  shows "sint (sum_list bs) = (\<Sum>b\<leftarrow>bs. sint b)"
  using assms
proof (induction bs)
  case Nil
  then show ?case by simp
next
  case (Cons b bs)
  have b: "0 \<le> sint b" using Cons.prems(1) by (simp add: word_sle_eq)
  have rest: "0 \<le> (\<Sum>b\<leftarrow>bs. sint b)"
    using Cons.prems(1) by (intro sum_list_nonneg) (auto simp: word_sle_eq)
  have "(\<Sum>b\<leftarrow>bs. sint b) < 2 ^ 63" using Cons.prems(2) b by simp
  with Cons have ih: "sint (sum_list bs) = (\<Sum>b\<leftarrow>bs. sint b)" by simp
  have "sint (b + sum_list bs) = signed_take_bit 63 (sint b + sint (sum_list bs))"
    by (simp add: sint_word_ariths)
  also have "\<dots> = sint b + sint (sum_list bs)"
    using b rest Cons.prems(2) unfolding ih
    by (intro signed_take_bit_int_eq_self) simp_all
  finally show ?case by (simp add: ih)
qed

subsection \<open>The contract of sort.Slice, and a sorter that meets it\<close>

text \<open>
  For the closure \<open>less_burst\<close> the contract says: sorted by the signed value of
  BurstDuration. Insertion sort meets it; where the bursts are pairwise different, the
  contract leaves one outcome only.
\<close>

lemma less_burst_sint: "less_burst p q \<longleftrightarrow> sint (BurstDuration p) < sint (BurstDuration q)"
  by (simp add: less_burst_def word_sless_alt)

lemma sorted_wrt_less_burst:
  "sorted_wrt (\<lambda>a b. \<not> less_burst b a) xs = sorted (map (\<lambda>p. sint (BurstDuration p)) xs)"
  by (simp add: sorted_map less_burst_sint not_less)

lemma mset_insert_left: "mset (insert_left lessf x ys) = add_mset x (mset ys)"
  by (induction ys) simp_all

lemma set_insert_left: "set (insert_left lessf x ys) = insert x (set ys)"
  by (induction ys) auto

lemma sorted_insert_left:
  "sorted (map (\<lambda>p. sint (BurstDuration p)) ys) \<Longrightarrow>
   sorted (map (\<lambda>p. sint (BurstDuration p)) (insert_left less_burst x ys))"
  by (induction ys) (auto simp: less_burst_sint set_insert_left)

lemma insertion_fold:
  "mset (foldl (\<lambda>acc x. insert_left lessf x acc) acc xs) = mset acc + mset xs"
  by (induction xs arbitrary: acc) (simp_all add: mset_insert_left)

lemma insertion_fold_sorted:
  "sorted (map (\<lambda>p. sint (BurstDuration p)) acc) \<Longrightarrow>
   sorted (map (\<lambda>p. sint (BurstDuration p)) (foldl (\<lambda>acc x. insert_left less_burst x acc) acc xs))"
  by (induction xs arbitrary: acc) (simp_all add: sorted_insert_left)

lemma insertion_sort_ok: "sort_Slice_ok insertion_sort less_burst xs"
  using insertion_fold_sorted [of "[]" xs]
  by (simp add: sort_Slice_ok_def insertion_sort_def insertion_fold sorted_wrt_less_burst)

lemma sort_Slice_length: "sort_Slice_ok srt lessf ps \<Longrightarrow> length (srt lessf ps) = length ps"
  by (auto simp: sort_Slice_ok_def dest: mset_eq_length)

lemma sort_Slice_Nil: "sort_Slice_ok srt lessf [] \<Longrightarrow> srt lessf [] = []"
  by (simp add: sort_Slice_ok_def)

lemma sort_Slice_single: "sort_Slice_ok srt lessf [p] \<Longrightarrow> srt lessf [p] = [p]"
  by (simp add: sort_Slice_ok_def)

lemma sort_Slice_positive:
  assumes "sort_Slice_ok srt lessf ps"
  shows "(\<exists>i<length ps. P (srt lessf ps ! i)) = (\<exists>p\<in>set ps. P p)"
proof -
  have "set (srt lessf ps) = set ps"
    using assms by (auto simp: sort_Slice_ok_def dest: mset_eq_setD)
  moreover have "length (srt lessf ps) = length ps"
    using assms by (rule sort_Slice_length)
  ultimately show ?thesis
    by (metis in_set_conv_nth)
qed

lemma sorted_by_burst_unique:
  assumes m: "mset xs = mset ys"
    and sx: "sorted (map (\<lambda>p. sint (BurstDuration p)) xs)"
    and sy: "sorted (map (\<lambda>p. sint (BurstDuration p)) ys)"
    and d: "distinct (map (\<lambda>p. sint (BurstDuration p)) ys)"
  shows "xs = ys"
proof -
  let ?key = "\<lambda>p. sint (BurstDuration p)"
  have mm: "mset (map ?key xs) = mset (map ?key ys)"
    using m by simp
  then have dx: "distinct (map ?key xs)"
    using d mset_eq_imp_distinct_iff by blast
  have "set (map ?key xs) = set (map ?key ys)"
    using mm by (rule mset_eq_setD)
  with sx sy dx d have keys: "map ?key xs = map ?key ys"
    by (intro sorted_distinct_set_unique)
  have "set xs = set ys" using m by (rule mset_eq_setD)
  moreover have "inj_on ?key (set ys)" using d by (simp add: distinct_map)
  ultimately have "inj_on ?key (set xs \<union> set ys)" by simp
  with keys show ?thesis by (rule map_inj_on)
qed

lemma sort_Slice_unique:
  assumes "sort_Slice_ok srt less_burst ps" and "mset qs = mset ps"
    and "sorted (map (\<lambda>p. sint (BurstDuration p)) qs)"
    and "distinct (map (\<lambda>p. sint (BurstDuration p)) qs)"
  shows "srt less_burst ps = qs"
  using assms
  by (intro sorted_by_burst_unique) (simp_all add: sort_Slice_ok_def sorted_wrt_less_burst)

subsection \<open>Rows and slices\<close>

lemma row_after_columns [simp]:
  "row_ProcessID (row_after ps i v) = Some (ProcessID (ps ! i))"
  "row_Priority (row_after ps i v) = Some (Priority (ps ! i))"
  "row_BurstDuration (row_after ps i v) = Some (BurstDuration (ps ! i))"
  "row_ArrivalTime (row_after ps i v) = Some (ArrivalTime (ps ! i))"
  "row_WaitingTime (row_after ps i v) = Some (waitingTime v)"
  "row_TurnaroundTime (row_after ps i v) = Some (BurstDuration (ps ! i) + waitingTime v)"
  "row_CompletionTime (row_after ps i v) =
     Some (BurstDuration (ps ! i) + ArrivalTime (ps ! i) + waitingTime v)"
  by (simp_all add: row_after_def schedule_row_def row_ProcessID_def row_Priority_def
      row_BurstDuration_def row_ArrivalTime_def row_WaitingTime_def row_TurnaroundTime_def
      row_CompletionTime_def column_def)

lemma both_identities_row_after: "both_identities (row_after ps i v)"
  by (simp add: both_identities_def row_after_def schedule_row_def row_ArrivalTime_def
      row_BurstDuration_def row_WaitingTime_def row_TurnaroundTime_def row_CompletionTime_def
      column_def)

lemma map_ProcessID_row_after:
  "map row_ProcessID (map (\<lambda>i. row_after ps i (f i)) [0..<length ps]) =
     map (\<lambda>p. Some (ProcessID p)) ps"
  by (rule nth_equalityI) simp_all

lemma nonneg_waiting_row_after: "nonneg_waiting (row_after qs i v) = (0 \<le>s waitingTime v)"
  by (simp add: nonneg_waiting_def)

lemma RR_row_columns [simp]:
  "row_ProcessID (RR_row p t) = Some (ProcessID p)"
  "row_Priority (RR_row p t) = Some (Priority p)"
  "row_BurstDuration (RR_row p t) = Some (BurstDuration p)"
  "row_ArrivalTime (RR_row p t) = Some (ArrivalTime p)"
  "row_WaitingTime (RR_row p t) = Some (t - BurstDuration p)"
  "row_TurnaroundTime (RR_row p t) = Some t"
  "row_CompletionTime (RR_row p t) = None"
  by (simp_all add: RR_row_def row_ProcessID_def row_Priority_def
      row_BurstDuration_def row_ArrivalTime_def row_WaitingTime_def row_TurnaroundTime_def
      row_CompletionTime_def column_def)

lemma slice_after_simps [simp]:
  "PID (slice_after ps i v) = ProcessID (ps ! i)"
  "Start (slice_after ps i v) = waitingTime v + ArrivalTime (ps ! i)"
  "Stop (slice_after ps i v) = serviceTime v"
  by (simp_all add: slice_after_def)

lemma clamp0_nonneg: "0 \<le>s clamp0 w"
  by (simp add: clamp0_def word_sle_eq word_sless_alt)

subsection \<open>A loop over the indices that fills schedule and gantt\<close>

text \<open>
  Iteration \<open>i\<close> writes \<open>schedule[i]\<close> and no other row, and appends one slice: so
  the final table and chart list, index by index, what each iteration wrote.
\<close>

lemma loop_schedule_length:
  assumes "\<And>v i. schedule (B v i) = (schedule v)[i := R i (B v i)]"
  shows "length (schedule (foldl B v0 [0..<k])) = length (schedule v0)"
  by (induction k) (simp_all add: assms)

lemma loop_schedule_nth:
  assumes upd: "\<And>v i. schedule (B v i) = (schedule v)[i := R i (B v i)]"
    and "i < k" and "k \<le> length (schedule v0)"
  shows "schedule (foldl B v0 [0..<k]) ! i = R i (foldl B v0 [0..<Suc i])"
  using assms(2,3)
proof (induction k)
  case 0
  then show ?case by simp
next
  case (Suc k)
  have len: "length (schedule (foldl B v0 [0..<k])) = length (schedule v0)"
    by (rule loop_schedule_length [OF upd])
  show ?case
  proof (cases "i = k")
    case True
    with Suc.prems len show ?thesis by (simp add: upd)
  next
    case False
    with Suc.prems have "i < k" "k \<le> length (schedule v0)" by simp_all
    with Suc.IH False show ?thesis by (simp add: upd)
  qed
qed

lemma init_vars_simps [simp]:
  "serviceTime (init_vars ps) = 0" "waitingTime (init_vars ps) = 0"
  "schedule (init_vars ps) = replicate (length ps) []" "gantt (init_vars ps) = []"
  "totalWait (init_vars ps) = Float64 0" "totalTurnaround (init_vars ps) = Float64 0"
  "lastCompletion (init_vars ps) = Float64 0"
  by (simp_all add: init_vars_def)

lemma loop_schedule_all:
  assumes upd: "\<And>v i. schedule (B v i) = (schedule v)[i := R i (B v i)]"
  shows "schedule (foldl B (init_vars ps) [0..<length ps]) =
           map (\<lambda>i. R i (foldl B (init_vars ps) [0..<Suc i])) [0..<length ps]"
proof (rule nth_equalityI)
  show "length (schedule (foldl B (init_vars ps) [0..<length ps])) =
        length (map (\<lambda>i. R i (foldl B (init_vars ps) [0..<Suc i])) [0..<length ps])"
    by (simp add: loop_schedule_length [OF upd])
next
  fix i assume "i < length (schedule (foldl B (init_vars ps) [0..<length ps]))"
  then have i: "i < length ps" by (simp add: loop_schedule_length [OF upd])
  then show "schedule (foldl B (init_vars ps) [0..<length ps]) ! i =
             map (\<lambda>i. R i (foldl B (init_vars ps) [0..<Suc i])) [0..<length ps] ! i"
    using loop_schedule_nth [OF upd, of i "length ps" "init_vars ps"] by simp
qed

lemma loop_gantt:
  assumes "\<And>v i. gantt (B v i) = gantt v @ [E i (B v i)]"
  shows "gantt (foldl B v0 [0..<k]) = gantt v0 @ map (\<lambda>i. E i (foldl B v0 [0..<Suc i])) [0..<k]"
  by (induction k) (simp_all add: assms)

lemma loop_serviceTime:
  assumes "\<And>v i. serviceTime (B v i) = serviceTime v + BurstDuration (ps ! i)"
    and "k \<le> length ps"
  shows "serviceTime (foldl B v0 [0..<k]) = serviceTime v0 + sum_list (map BurstDuration (take k ps))"
  using assms(2)
  by (induction k) (simp_all add: assms(1) take_Suc_conv_app_nth add.assoc)

subsection \<open>The three clock loops\<close>

lemma FCFS_body_schedule:
  "schedule (FCFS_body ps v i) = (schedule v)[i := row_after ps i (FCFS_body ps v i)]"
  by (simp add: FCFS_body_def row_after_def Let_def)

lemma SJF_body_schedule:
  "schedule (SJF_body ps v i) = (schedule v)[i := row_after ps i (SJF_body ps v i)]"
  by (simp add: SJF_body_def row_after_def Let_def)

lemma SJFPriority_body_schedule:
  "schedule (SJFPriority_body ps v i) = (schedule v)[i := row_after ps i (SJFPriority_body ps v i)]"
  by (simp add: SJFPriority_body_def row_after_def Let_def)

lemma FCFS_body_gantt:
  "gantt (FCFS_body ps v i) = gantt v @ [slice_after ps i (FCFS_body ps v i)]"
  by (simp add: FCFS_body_def slice_after_def Let_def)

lemma SJF_body_gantt:
  "gantt (SJF_body ps v i) = gantt v @ [slice_after ps i (SJF_body ps v i)]"
  by (simp add: SJF_body_def slice_after_def Let_def)

lemma SJFPriority_body_gantt:
  "gantt (SJFPriority_body ps v i) = gantt v @ [slice_after ps i (SJFPriority_body ps v i)]"
  by (simp add: SJFPriority_body_def slice_after_def Let_def)

lemma FCFS_body_serviceTime:
  "serviceTime (FCFS_body ps v i) = serviceTime v + BurstDuration (ps ! i)"
  by (simp add: FCFS_body_def Let_def)

lemma SJF_body_serviceTime:
  "serviceTime (SJF_body ps v i) = serviceTime v + BurstDuration (ps ! i)"
  by (simp add: SJF_body_def Let_def)

lemma FCFS_body_waitingTime:
  "waitingTime (FCFS_body ps v i) =
     (if 0 <s ArrivalTime (ps ! i) then serviceTime v - ArrivalTime (ps ! i) else waitingTime v)"
  by (simp add: FCFS_body_def Let_def)

lemma SJF_body_waitingTime:
  "waitingTime (SJF_body ps v i) =
     (if 0 <s ArrivalTime (ps ! i) then clamp0 (serviceTime v - ArrivalTime (ps ! i))
      else waitingTime v)"
  by (simp add: SJF_body_def Let_def clamp0_def)

lemma SJFPriority_body_eq:
  "SJFPriority_body ps v i = SJF_body ps (advance_clock ps i v) i"
  by (simp add: SJFPriority_body_def SJF_body_def advance_clock_def Let_def)

lemma SJFPriority_body_waitingTime:
  "waitingTime (SJFPriority_body ps v i) =
     (if 0 <s ArrivalTime (ps ! i)
      then clamp0 (serviceTime (advance_clock ps i v) - ArrivalTime (ps ! i))
      else waitingTime v)"
  by (simp add: SJFPriority_body_eq SJF_body_waitingTime advance_clock_def)

lemma FCFS_at_simps:
  "FCFS_at ps 0 = init_vars ps"
  "FCFS_at ps (Suc k) = FCFS_body ps (FCFS_at ps k) k"
  by (simp_all add: FCFS_at_def)

lemma SJF_at_simps:
  "SJF_at ps 0 = init_vars ps"
  "SJF_at ps (Suc k) = SJF_body ps (SJF_at ps k) k"
  by (simp_all add: SJF_at_def)

lemma SJFPriority_at_simps:
  "SJFPriority_at ps 0 = init_vars ps"
  "SJFPriority_at ps (Suc k) = SJFPriority_body ps (SJFPriority_at ps k) k"
  by (simp_all add: SJFPriority_at_def)

lemma FCFS_schedule_all:
  "schedule (FCFS_at ps (length ps)) = map (\<lambda>i. row_after ps i (FCFS_at ps (Suc i))) [0..<length ps]"
  unfolding FCFS_at_def
  by (rule loop_schedule_all [where B = "FCFS_body ps" and R = "row_after ps"])
    (rule FCFS_body_schedule)

lemma FCFS_gantt_all:
  "gantt (FCFS_at ps k) = map (\<lambda>i. slice_after ps i (FCFS_at ps (Suc i))) [0..<k]"
  unfolding FCFS_at_def
  using loop_gantt [where B = "FCFS_body ps" and E = "slice_after ps" and ?v0.0 = "init_vars ps" and k = k,
      OF FCFS_body_gantt]
  by simp

lemma SJF_schedule_all:
  "schedule (SJF_at ps (length ps)) = map (\<lambda>i. row_after ps i (SJF_at ps (Suc i))) [0..<length ps]"
  unfolding SJF_at_def
  by (rule loop_schedule_all [where B = "SJF_body ps" and R = "row_after ps"])
    (rule SJF_body_schedule)

lemma SJF_gantt_all:
  "gantt (SJF_at ps k) = map (\<lambda>i. slice_after ps i (SJF_at ps (Suc i))) [0..<k]"
  unfolding SJF_at_def
  using loop_gantt [where B = "SJF_body ps" and E = "slice_after ps" and ?v0.0 = "init_vars ps" and k = k,
      OF SJF_body_gantt]
  by simp

lemma SJFPriority_schedule_all:
  "schedule (SJFPriority_at ps (length ps)) = map (\<lambda>i. row_after ps i (SJFPriority_at ps (Suc i))) [0..<length ps]"
  unfolding SJFPriority_at_def
  by (rule loop_schedule_all [where B = "SJFPriority_body ps" and R = "row_after ps"])
    (rule SJFPriority_body_schedule)

lemma SJFPriority_gantt_all:
  "gantt (SJFPriority_at ps k) = map (\<lambda>i. slice_after ps i (SJFPriority_at ps (Suc i))) [0..<k]"
  unfolding SJFPriority_at_def
  using loop_gantt [where B = "SJFPriority_body ps" and E = "slice_after ps" and ?v0.0 = "init_vars ps" and k = k,
      OF SJFPriority_body_gantt]
  by simp

lemma FCFS_result:
  "FCFSSchedule title ps =
     Inr [outputTitle title,
          outputGantt (map (\<lambda>i. slice_after ps i (FCFS_at ps (Suc i))) [0..<length ps]),
          outputSchedule (map (\<lambda>i. row_after ps i (FCFS_at ps (Suc i))) [0..<length ps])
            (FDiv (totalWait (FCFS_loop ps)) (Float64 (int (length ps))))
            (FDiv (totalTurnaround (FCFS_loop ps)) (Float64 (int (length ps))))
            (FDiv (Float64 (int (length ps))) (lastCompletion (FCFS_loop ps)))]"
  unfolding FCFSSchedule_def Let_def FCFS_loop_def
  by (simp add: FCFS_schedule_all FCFS_gantt_all flip: FCFS_at_def)

lemma SJF_result:
  "SJFSchedule srt title ps =
     (let qs = srt less_burst ps in
      Inr [outputTitle title,
          outputGantt (map (\<lambda>i. slice_after qs i (SJF_at qs (Suc i))) [0..<length qs]),
          outputSchedule (map (\<lambda>i. row_after qs i (SJF_at qs (Suc i))) [0..<length qs])
            (FDiv (totalWait (SJF_loop qs)) (Float64 (int (length qs))))
            (FDiv (totalTurnaround (SJF_loop qs)) (Float64 (int (length qs))))
            (FDiv (Float64 (int (length qs))) (lastCompletion (SJF_loop qs)))])"
  unfolding SJFSchedule_def Let_def SJF_loop_def
  by (simp add: SJF_schedule_all SJF_gantt_all flip: SJF_at_def)

lemma SJFPriority_result:
  "SJFPrioritySchedule srt title ps =
     (let qs = srt less_burst ps in
      Inr [outputTitle title,
          outputGantt (map (\<lambda>i. slice_after qs i (SJFPriority_at qs (Suc i))) [0..<length qs]),
          outputSchedule (map (\<lambda>i. row_after qs i (SJFPriority_at qs (Suc i))) [0..<length qs])
            (FDiv (totalWait (SJFPriority_loop qs)) (Float64 (int (length qs))))
            (FDiv (totalTurnaround (SJFPriority_loop qs)) (Float64 (int (length qs))))
            (FDiv (Float64 (int (length qs))) (lastCompletion (SJFPriority_loop qs)))])"
  unfolding SJFPrioritySchedule_def Let_def SJFPriority_loop_def
  by (simp add: SJFPriority_schedule_all SJFPriority_gantt_all flip: SJFPriority_at_def)

lemma FCFS_at_serviceTime:
  "k \<le> length ps \<Longrightarrow> serviceTime (FCFS_at ps k) = sum_list (map BurstDuration (take k ps))"
  using loop_serviceTime [where B = "FCFS_body ps" and ps = ps and k = k and ?v0.0 = "init_vars ps"]
  by (simp add: FCFS_at_def FCFS_body_serviceTime)

lemma SJF_at_serviceTime:
  "k \<le> length ps \<Longrightarrow> serviceTime (SJF_at ps k) = sum_list (map BurstDuration (take k ps))"
  using loop_serviceTime [where B = "SJF_body ps" and ps = ps and k = k and ?v0.0 = "init_vars ps"]
  by (simp add: SJF_at_def SJF_body_serviceTime)

lemma FCFS_row_waiting:
  assumes "i < length ps"
  shows "waitingTime (FCFS_at ps (Suc i)) =
           (if 0 <s ArrivalTime (ps ! i)
            then sum_list (map BurstDuration (take i ps)) - ArrivalTime (ps ! i)
            else waitingTime (FCFS_at ps i))"
  using assms by (simp add: FCFS_at_simps FCFS_body_waitingTime FCFS_at_serviceTime)

lemma SJF_row_waiting:
  assumes "i < length ps"
  shows "waitingTime (SJF_at ps (Suc i)) =
           (if 0 <s ArrivalTime (ps ! i)
            then clamp0 (sum_list (map BurstDuration (take i ps)) - ArrivalTime (ps ! i))
            else waitingTime (SJF_at ps i))"
  using assms by (simp add: SJF_at_simps SJF_body_waitingTime SJF_at_serviceTime)

lemma SJF_at_nonneg: "0 \<le>s waitingTime (SJF_at qs k)"
  by (induction k) (simp_all add: SJF_at_simps SJF_body_waitingTime clamp0_nonneg)

lemma SJFPriority_at_nonneg: "0 \<le>s waitingTime (SJFPriority_at qs k)"
  by (induction k) (simp_all add: SJFPriority_at_simps SJFPriority_body_waitingTime clamp0_nonneg)

subsection \<open>RRSchedule: the scan, the passes, the rows\<close>

text \<open>
  One scan of the first \<open>k\<close> indices takes the variables \<open>v\<close> to \<open>scanned k v\<close>;
  after a full scan no remaining time is positive, so the next scan changes nothing and
  reports \<open>done\<close>.
\<close>

lemma clock_after_Suc:
  "k < length rem \<Longrightarrow> clock_after c0 rem (Suc k) = clock_after c0 rem k + run_now (rem ! k)"
  by (simp add: clock_after_def take_Suc_conv_app_nth)

lemma scanned_0: "scanned 0 v = v"
  by (simp add: scanned_def clock_after_def map_nth)

lemma scan_step:
  assumes "k < length (remainingTime v)"
  shows "RR_scan_body (d, scanned k v) k =
           (d \<and> \<not> 0 <s remainingTime v ! k, scanned (Suc k) v)"
proof -
  let ?rem = "remainingTime v" and ?c = "clock_after (currentTime v) (remainingTime v)"
  let ?T = "\<lambda>k i. if i < k \<and> 0 <s ?rem ! i then ?c (Suc i) - arrivalTime v ! i
                    else turnaroundTime v ! i"
  let ?R = "\<lambda>k i. if i < k \<and> 0 <s ?rem ! i then 0 else ?rem ! i"
  show ?thesis
  proof (cases "0 <s ?rem ! k")
    case True
    have r: "run_now (?rem ! k) = ?rem ! k"
      using True by (simp add: run_now_def)
    have t: "(map (?T k) [0..<length (turnaroundTime v)])[k := ?c k + ?rem ! k - arrivalTime v ! k]
              = map (?T (Suc k)) [0..<length (turnaroundTime v)]"
      using assms True
      by (auto simp: map_upt_update less_Suc_eq clock_after_Suc r)
    have m: "(map (?R k) [0..<length ?rem])[k := 0] = map (?R (Suc k)) [0..<length ?rem]"
      using assms True
      by (auto simp: map_upt_update less_Suc_eq)
    show ?thesis
      using assms True t m
      by (simp add: RR_scan_body_def scanned_def Let_def clock_after_Suc r)
  next
    case False
    have r: "run_now (?rem ! k) = 0"
      using False by (simp add: run_now_def)
    have t: "map (?T k) [0..<length (turnaroundTime v)] = map (?T (Suc k)) [0..<length (turnaroundTime v)]"
      using False by (auto simp: less_Suc_eq)
    have m: "map (?R k) [0..<length ?rem] = map (?R (Suc k)) [0..<length ?rem]"
      using False by (auto simp: less_Suc_eq)
    show ?thesis
      using assms False t m
      by (simp add: RR_scan_body_def scanned_def Let_def clock_after_Suc r)
  qed
qed

lemma scan_fold:
  "k \<le> length (remainingTime v) \<Longrightarrow>
   foldl RR_scan_body (d, v) [0..<k] =
     (d \<and> (\<forall>i<k. \<not> 0 <s remainingTime v ! i), scanned k v)"
proof (induction k)
  case 0
  then show ?case by (simp add: scanned_0)
next
  case (Suc k)
  then show ?case by (auto simp: scan_step less_Suc_eq)
qed

lemma RR_pass_eq:
  "n \<le> length (remainingTime v) \<Longrightarrow>
   RR_pass n v = ((\<forall>i<n. \<not> 0 <s remainingTime v ! i), scanned n v)"
  by (simp add: RR_pass_def scan_fold)

lemma scanned_idle:
  assumes "\<forall>i<n. \<not> 0 <s remainingTime v ! i"
  shows "scanned n v = v"
proof -
  have "\<And>k. k \<le> n \<Longrightarrow> sum_list (map run_now (take k (remainingTime v))) = 0"
  proof -
    fix k assume "k \<le> n"
    then have "\<forall>r \<in> set (take k (remainingTime v)). run_now r = 0"
      using assms by (auto simp: in_set_conv_nth run_now_def)
    then show "sum_list (map run_now (take k (remainingTime v))) = 0"
      by (rule sum_list_all_zero)
  qed
  then have c: "clock_after (currentTime v) (remainingTime v) n = currentTime v"
    by (simp add: clock_after_def)
  have t: "map (\<lambda>i. if i < n \<and> 0 <s remainingTime v ! i
                        then clock_after (currentTime v) (remainingTime v) (Suc i) - arrivalTime v ! i
                        else turnaroundTime v ! i) [0..<length (turnaroundTime v)]
            = map (\<lambda>i. turnaroundTime v ! i) [0..<length (turnaroundTime v)]"
    using assms by auto
  have m: "map (\<lambda>i. if i < n \<and> 0 <s remainingTime v ! i then 0 else remainingTime v ! i)
               [0..<length (remainingTime v)]
            = map (\<lambda>i. remainingTime v ! i) [0..<length (remainingTime v)]"
    using assms by auto
  show ?thesis
    unfolding scanned_def c t m by (simp add: map_nth)
qed

lemma scanned_lengths [simp]:
  "length (remainingTime (scanned k v)) = length (remainingTime v)"
  "length (turnaroundTime (scanned k v)) = length (turnaroundTime v)"
  "waiting (scanned k v) = waiting v"
  "rows (scanned k v) = rows v"
  "arrivalTime (scanned k v) = arrivalTime v"
  by (simp_all add: scanned_def)

lemma scanned_not_positive:
  "i < length (remainingTime v) \<Longrightarrow> i < n \<Longrightarrow> \<not> 0 <s remainingTime (scanned n v) ! i"
  by (simp add: scanned_def)

lemma RR_passes_one:
  assumes "n \<le> length (remainingTime v)"
  shows "RR_passes (Suc 0) n v = (if \<forall>i<n. \<not> 0 <s remainingTime v ! i then Some v else None)"
  using assms by (simp add: RR_pass_eq scanned_idle)

lemma RR_passes_two:
  assumes "n \<le> length (remainingTime v)"
  shows "RR_passes (Suc (Suc k)) n v = Some (scanned n v)"
proof -
  have idle: "\<forall>i<n. \<not> 0 <s remainingTime (scanned n v) ! i"
  proof (intro allI impI)
    fix i assume "i < n"
    with assms have "i < length (remainingTime v)" by simp
    then show "\<not> 0 <s remainingTime (scanned n v) ! i"
      using \<open>i < n\<close> by (rule scanned_not_positive)
  qed
  have again: "RR_pass n (scanned n v) = (True, scanned n v)"
    using assms idle by (simp add: RR_pass_eq scanned_idle)
  show ?thesis
    using assms again by (simp add: RR_pass_eq)
qed

lemma RR_fill_fold:
  "k \<le> n \<Longrightarrow>
   foldl (RR_fill_body qs) (rr_init n) [0..<k] =
     (rr_init n)\<lparr>remainingTime := map (\<lambda>i. if i < k then BurstDuration (qs ! i) else 0) [0..<n],
                 arrivalTime := map (\<lambda>i. if i < k then ArrivalTime (qs ! i) else 0) [0..<n]\<rparr>"
proof (induction k)
  case 0
  then show ?case by (simp add: rr_init_def map_replicate_const)
next
  case (Suc k)
  then show ?case
    by (auto simp: RR_fill_body_def map_upt_update less_Suc_eq rr_init_def)
qed

lemma RR_filled:
  "foldl (RR_fill_body qs) (rr_init n) [0..<n] =
     (rr_init n)\<lparr>remainingTime := map (\<lambda>i. BurstDuration (qs ! i)) [0..<n],
                 arrivalTime := map (\<lambda>i. ArrivalTime (qs ! i)) [0..<n]\<rparr>"
  by (simp add: RR_fill_fold cong: map_cong)

lemma RR_row_fold:
  assumes "k \<le> length (waiting v)" and "k \<le> length (rows v)"
  shows "turnaroundTime (foldl (RR_row_body qs) v [0..<k]) = turnaroundTime v
       \<and> currentTime (foldl (RR_row_body qs) v [0..<k]) = currentTime v
       \<and> length (waiting (foldl (RR_row_body qs) v [0..<k])) = length (waiting v)
       \<and> length (rows (foldl (RR_row_body qs) v [0..<k])) = length (rows v)
       \<and> (\<forall>i<k. rows (foldl (RR_row_body qs) v [0..<k]) ! i = RR_row (qs ! i) (turnaroundTime v ! i))"
  using assms
proof (induction k)
  case 0
  then show ?case by simp
next
  case (Suc k)
  then show ?case
    by (auto simp: RR_row_body_def Let_def RR_row_def nth_list_update less_Suc_eq)
qed

lemma RR_row_totals:
  assumes "k \<le> length (waiting v)"
  shows "totalTurnaroundTime (foldl (RR_row_body qs) v [0..<k]) =
           totalTurnaroundTime v + sum_list (map (\<lambda>i. turnaroundTime v ! i) [0..<k])
       \<and> totalWaiting (foldl (RR_row_body qs) v [0..<k]) =
           totalWaiting v + sum_list (map (\<lambda>i. turnaroundTime v ! i - BurstDuration (qs ! i)) [0..<k])
       \<and> turnaroundTime (foldl (RR_row_body qs) v [0..<k]) = turnaroundTime v
       \<and> length (waiting (foldl (RR_row_body qs) v [0..<k])) = length (waiting v)"
  using assms
proof (induction k)
  case 0
  then show ?case by simp
next
  case (Suc k)
  then show ?case
    by (simp add: RR_row_body_def Let_def add.assoc)
qed

lemma RR_rows_all:
  assumes "length (waiting v) = n" and "length (rows v) = n"
  shows "rows (foldl (RR_row_body qs) v [0..<n]) =
           map (\<lambda>i. RR_row (qs ! i) (turnaroundTime v ! i)) [0..<n]"
  using RR_row_fold [of n v qs] assms
  by (intro nth_equalityI) simp_all

lemma RR_result:
  fixes srt title ps k
  defines "qs \<equiv> srt less_burst ps" and "n \<equiv> length ps"
  shows "RRSchedule (Suc (Suc k)) srt title ps =
     Some (Inr [outputTitle title,
       outputSchedule (map (\<lambda>i. RR_row (qs ! i) (RR_turnaround qs i)) [0..<n])
         (FDiv (Float64 (sint (sum_list (map (\<lambda>i. RR_turnaround qs i - BurstDuration (qs ! i)) [0..<n]))))
               (Float64 (int n)))
         (FDiv (Float64 (sint (sum_list (map (RR_turnaround qs) [0..<n])))) (Float64 (int n)))
         (FDiv (Float64 (int n)) (Float64 (sint (RR_clock qs n))))])"
proof -
  let ?rem = "map (\<lambda>i. if i < n then BurstDuration (qs ! i) else 0) [0..<n]"
  let ?arr = "map (\<lambda>i. if i < n then ArrivalTime (qs ! i) else 0) [0..<n]"
  let ?ini = "(rr_init n)\<lparr>remainingTime := ?rem, arrivalTime := ?arr\<rparr>"
  let ?mid = "scanned n ?ini"
  let ?fin = "foldl (RR_row_body qs) ?mid [0..<n]"
  have fill: "foldl (RR_fill_body qs) (rr_init n) [0..<n] = ?ini"
    by (simp add: RR_fill_fold)
  have passes: "RR_passes (Suc (Suc k)) n ?ini = Some ?mid"
    by (rule RR_passes_two) simp
  have clock: "clock_after 0 ?rem j = RR_clock qs j" if "j \<le> n" for j
  proof -
    have "take j ?rem = map (\<lambda>i. BurstDuration (qs ! i)) [0..<j]"
      using that by (auto simp: take_map intro!: nth_equalityI)
    then show ?thesis by (simp add: clock_after_def RR_clock_def comp_def)
  qed
  have tat: "turnaroundTime ?mid ! i = RR_turnaround qs i" if "i < n" for i
    using that clock [of "Suc i"]
    by (simp add: scanned_def rr_init_def RR_turnaround_def)
  have cur1: "currentTime ?mid = RR_clock qs n"
    using clock [of n] by (simp add: scanned_def rr_init_def)
  have w1: "length (waiting ?mid) = n" and r1: "length (rows ?mid) = n"
    by (simp_all add: rr_init_def)
  have rows: "rows ?fin = map (\<lambda>i. RR_row (qs ! i) (RR_turnaround qs i)) [0..<n]"
    using tat by (simp add: RR_rows_all [OF w1 r1])
  have cur: "currentTime ?fin = RR_clock qs n"
    using RR_row_fold [of n ?mid qs] w1 r1 cur1 by simp
  have zero: "totalTurnaroundTime ?mid = 0" "totalWaiting ?mid = 0"
    by (simp_all add: scanned_def rr_init_def)
  have tsum: "map (\<lambda>i. turnaroundTime ?mid ! i) [0..<n] = map (RR_turnaround qs) [0..<n]"
    using tat by simp
  have wsum: "map (\<lambda>i. turnaroundTime ?mid ! i - BurstDuration (qs ! i)) [0..<n] =
              map (\<lambda>i. RR_turnaround qs i - BurstDuration (qs ! i)) [0..<n]"
    using tat by simp
  have tt: "totalTurnaroundTime ?fin = sum_list (map (RR_turnaround qs) [0..<n])"
    using RR_row_totals [of n ?mid qs] w1 zero unfolding tsum by simp
  have tw: "totalWaiting ?fin = sum_list (map (\<lambda>i. RR_turnaround qs i - BurstDuration (qs ! i)) [0..<n])"
    using RR_row_totals [of n ?mid qs] w1 zero unfolding wsum by simp
  show ?thesis
    unfolding RRSchedule_def Let_def qs_def [symmetric] n_def [symmetric] fill passes
    by (simp add: rows cur tt tw)
qed

lemma RR_clock_Suc: "RR_clock qs (Suc i) = RR_clock qs i + run_now (BurstDuration (qs ! i))"
  by (simp add: RR_clock_def)

lemma clock_after_filled:
  "j \<le> n \<Longrightarrow> clock_after 0 (map (\<lambda>i. BurstDuration (qs ! i)) [0..<n]) j = RR_clock qs j"
  by (simp add: clock_after_def RR_clock_def take_map comp_def)

lemma RR_first_pass:
  fixes qs n
  defines "v0 \<equiv> foldl (RR_fill_body qs) (rr_init n) [0..<n]"
  shows "RR_pass n v0 = ((\<forall>i<n. \<not> 0 <s BurstDuration (qs ! i)), scanned n v0)"
    and "RR_pass n (scanned n v0) = (True, scanned n v0)"
    and "RR_passes (Suc (Suc k)) n v0 = Some (scanned n v0)"
    and "RR_passes (Suc 0) n v0 = (if \<forall>i<n. \<not> 0 <s BurstDuration (qs ! i) then Some v0 else None)"
    and "currentTime (scanned n v0) = RR_clock qs n"
    and "i < n \<Longrightarrow> remainingTime (scanned n v0) ! i =
           (if 0 <s BurstDuration (qs ! i) then 0 else BurstDuration (qs ! i))"
    and "i < n \<Longrightarrow> turnaroundTime (scanned n v0) ! i =
           (if 0 <s BurstDuration (qs ! i)
            then RR_clock qs i + BurstDuration (qs ! i) - ArrivalTime (qs ! i) else 0)"
proof -
  have len: "n \<le> length (remainingTime v0)"
    by (simp add: v0_def RR_filled)
  have rem: "\<And>i. i < n \<Longrightarrow> remainingTime v0 ! i = BurstDuration (qs ! i)"
    by (simp add: v0_def RR_filled)
  then have all: "(\<forall>i<n. \<not> 0 <s remainingTime v0 ! i) = (\<forall>i<n. \<not> 0 <s BurstDuration (qs ! i))"
    by auto
  show "RR_pass n v0 = ((\<forall>i<n. \<not> 0 <s BurstDuration (qs ! i)), scanned n v0)"
    using len all by (simp add: RR_pass_eq)
  have idle: "\<forall>i<n. \<not> 0 <s remainingTime (scanned n v0) ! i"
  proof (intro allI impI)
    fix i assume "i < n"
    with len have "i < length (remainingTime v0)" by simp
    then show "\<not> 0 <s remainingTime (scanned n v0) ! i"
      using \<open>i < n\<close> by (rule scanned_not_positive)
  qed
  show "RR_pass n (scanned n v0) = (True, scanned n v0)"
    using len idle by (simp add: RR_pass_eq scanned_idle)
  show "RR_passes (Suc (Suc k)) n v0 = Some (scanned n v0)"
    using len by (rule RR_passes_two)
  show "RR_passes (Suc 0) n v0 = (if \<forall>i<n. \<not> 0 <s BurstDuration (qs ! i) then Some v0 else None)"
    using len all by (simp add: RR_passes_one del: RR_passes.simps)
  show "currentTime (scanned n v0) = RR_clock qs n"
    unfolding v0_def RR_filled
    by (simp add: scanned_def rr_init_def clock_after_filled)
  show "remainingTime (scanned n v0) ! i =
           (if 0 <s BurstDuration (qs ! i) then 0 else BurstDuration (qs ! i))" if "i < n"
    using that unfolding v0_def RR_filled by (simp add: scanned_def)
  show "turnaroundTime (scanned n v0) ! i =
           (if 0 <s BurstDuration (qs ! i)
            then RR_clock qs i + BurstDuration (qs ! i) - ArrivalTime (qs ! i) else 0)" if "i < n"
    using that unfolding v0_def RR_filled
    by (simp add: scanned_def rr_init_def clock_after_filled RR_clock_Suc run_now_def)
qed

lemma RRSchedule_one:
  "(RRSchedule (Suc 0) srt title ps = None) =
     (\<exists>i<length ps. 0 <s BurstDuration (srt less_burst ps ! i))"
  unfolding RRSchedule_def Let_def RR_first_pass(4)
  by (simp del: RR_passes.simps)

lemma run_now_nonneg: "0 \<le>s b \<Longrightarrow> run_now b = b"
  by (auto simp: run_now_def signed.le_less)

lemma RR_clock_sum:
  assumes "length qs = n" and "\<forall>p\<in>set qs. 0 \<le>s BurstDuration p"
  shows "RR_clock qs n = sum_list (map BurstDuration qs)"
proof -
  have "map (\<lambda>i. run_now (BurstDuration (qs ! i))) [0..<n] = map BurstDuration qs"
    using assms by (intro nth_equalityI) (simp_all add: run_now_nonneg)
  then show ?thesis by (simp add: RR_clock_def)
qed

section \<open>The claims\<close>

text \<open>
  Claim C1, as the code has it. Every row that FCFSSchedule, SJFSchedule and
  SJFPrioritySchedule write (one per process, in the order served) satisfies
  CompletionTime = ArrivalTime + WaitingTime + BurstDuration and
  TurnaroundTime = WaitingTime + BurstDuration. A row of RRSchedule satisfies
  TurnaroundTime = WaitingTime + BurstDuration and has no CompletionTime cell. The
  identities are those of \<^verbatim>\<open>int64\<close> arithmetic.
\<close>

theorem C1_metric_identities:
  "(\<exists>g rs aw at th.
      FCFSSchedule title ps = Inr [outputTitle title, outputGantt g, outputSchedule rs aw at th]
      \<and> map row_ProcessID rs = map (\<lambda>p. Some (ProcessID p)) ps
      \<and> list_all both_identities rs)
   \<and> (\<exists>g rs aw at th.
      SJFSchedule srt title ps = Inr [outputTitle title, outputGantt g, outputSchedule rs aw at th]
      \<and> map row_ProcessID rs = map (\<lambda>p. Some (ProcessID p)) (srt less_burst ps)
      \<and> list_all both_identities rs)
   \<and> (\<exists>g rs aw at th.
      SJFPrioritySchedule srt title ps =
        Inr [outputTitle title, outputGantt g, outputSchedule rs aw at th]
      \<and> map row_ProcessID rs = map (\<lambda>p. Some (ProcessID p)) (srt less_burst ps)
      \<and> list_all both_identities rs)
   \<and> (\<exists>rs aw at th.
      RRSchedule (Suc (Suc k)) srt title ps =
        Some (Inr [outputTitle title, outputSchedule rs aw at th])
      \<and> map row_ProcessID rs =
          map (\<lambda>i. Some (ProcessID (srt less_burst ps ! i))) [0..<length ps]
      \<and> list_all turnaround_identity rs
      \<and> list_all (\<lambda>r. row_CompletionTime r = None) rs)"
proof (intro conjI)
  show "\<exists>g rs aw at th.
      FCFSSchedule title ps = Inr [outputTitle title, outputGantt g, outputSchedule rs aw at th]
      \<and> map row_ProcessID rs = map (\<lambda>p. Some (ProcessID p)) ps
      \<and> list_all both_identities rs"
    unfolding FCFS_result
    by (simp add: map_ProcessID_row_after list_all_iff both_identities_row_after del: map_map)
  show "\<exists>g rs aw at th.
      SJFSchedule srt title ps = Inr [outputTitle title, outputGantt g, outputSchedule rs aw at th]
      \<and> map row_ProcessID rs = map (\<lambda>p. Some (ProcessID p)) (srt less_burst ps)
      \<and> list_all both_identities rs"
    unfolding SJF_result Let_def
    by (simp add: map_ProcessID_row_after list_all_iff both_identities_row_after del: map_map)
  show "\<exists>g rs aw at th.
      SJFPrioritySchedule srt title ps =
        Inr [outputTitle title, outputGantt g, outputSchedule rs aw at th]
      \<and> map row_ProcessID rs = map (\<lambda>p. Some (ProcessID p)) (srt less_burst ps)
      \<and> list_all both_identities rs"
    unfolding SJFPriority_result Let_def
    by (simp add: map_ProcessID_row_after list_all_iff both_identities_row_after del: map_map)
  show "\<exists>rs aw at th.
      RRSchedule (Suc (Suc k)) srt title ps =
        Some (Inr [outputTitle title, outputSchedule rs aw at th])
      \<and> map row_ProcessID rs =
          map (\<lambda>i. Some (ProcessID (srt less_burst ps ! i))) [0..<length ps]
      \<and> list_all turnaround_identity rs
      \<and> list_all (\<lambda>r. row_CompletionTime r = None) rs"
    unfolding RR_result
    by (simp add: list_all_iff turnaround_identity_def)
qed

text \<open>
  Claim C1 as stated fails for RRSchedule: the row it writes for a process has six
  cells, and none of them is a CompletionTime.
\<close>

theorem C1_counterexample:
  "RRSchedule 2 insertion_sort ''RR'' [process ''P1'' 0 5 1] =
     Some (Inr [outputTitle ''RR'',
                outputSchedule
                  [[Sprint_string ''P1'', Sprint_int64 1, Sprint_int64 5, Sprint_int64 0,
                    Sprint_int64 0, Sprint_int64 5]]
                  (FDiv (Float64 0) (Float64 1)) (FDiv (Float64 5) (Float64 1))
                  (FDiv (Float64 1) (Float64 5))])
   \<and> row_CompletionTime
        [Sprint_string ''P1'', Sprint_int64 1, Sprint_int64 5, Sprint_int64 0,
         Sprint_int64 0, Sprint_int64 5] = None"
  by code_simp

text \<open>
  Claim C2. Whatever the order in which the batch P1 (arrival 0, burst 5), P2 (arrival 1,
  burst 3), P3 (arrival 2, burst 8) is handed over, RRSchedule sorts it to P2, P1, P3
  and writes the turnaround times 2, 8, 14 and the waiting times -1, 3, 6 in that order:
  the waiting time of P2 is negative.
\<close>

theorem C2_RR_scenario:
  assumes batch: "mset ps = {#process ''P1'' 0 5 pr1, process ''P2'' 1 3 pr2, process ''P3'' 2 8 pr3#}"
    and srt: "sort_Slice_ok srt less_burst ps"
  shows "\<exists>rs aw at th.
      RRSchedule (Suc (Suc k)) srt title ps =
        Some (Inr [outputTitle title, outputSchedule rs aw at th])
      \<and> map row_ProcessID rs = [Some ''P2'', Some ''P1'', Some ''P3'']
      \<and> map row_TurnaroundTime rs = [Some 2, Some 8, Some 14]
      \<and> map row_WaitingTime rs = [Some (- 1), Some 3, Some 6]
      \<and> map nonneg_waiting rs = [False, True, True]"
proof -
  let ?qs = "[process ''P2'' 1 3 pr2, process ''P1'' 0 5 pr1, process ''P3'' 2 8 pr3]"
  have "mset ?qs = mset ps" using batch by simp
  then have qs: "srt less_burst ps = ?qs"
    using srt by (intro sort_Slice_unique) (simp_all add: process_def)
  have "size (mset ps) = 3" unfolding batch by simp
  then have n: "length ps = 3" by simp
  have three: "[0..<3] = [0, Suc 0, Suc (Suc 0)]"
    by (simp add: upt_rec numeral_3_eq_3)
  show ?thesis
    unfolding RR_result qs n three
    by (simp add: RR_turnaround_def RR_clock_def run_now_def process_def nonneg_waiting_def
        word_sless_alt word_sle_eq)
qed

theorem C2_RR_scenario_witness:
  "mset [process ''P1'' 0 5 0, process ''P2'' 1 3 0, process ''P3'' 2 8 0] =
     {#process ''P1'' 0 5 0, process ''P2'' 1 3 0, process ''P3'' 2 8 0#}
   \<and> sort_Slice_ok insertion_sort less_burst
        [process ''P1'' 0 5 0, process ''P2'' 1 3 0, process ''P3'' 2 8 0]
   \<and> (\<exists>rs aw at th.
      RRSchedule 2 insertion_sort ''RR''
          [process ''P1'' 0 5 0, process ''P2'' 1 3 0, process ''P3'' 2 8 0] =
        Some (Inr [outputTitle ''RR'', outputSchedule rs aw at th])
      \<and> map row_ProcessID rs = [Some ''P2'', Some ''P1'', Some ''P3'']
      \<and> map row_TurnaroundTime rs = [Some 2, Some 8, Some 14]
      \<and> map row_WaitingTime rs = [Some (- 1), Some 3, Some 6]
      \<and> map nonneg_waiting rs = [False, True, True])"
proof -
  have m: "mset [process ''P1'' 0 5 0, process ''P2'' 1 3 0, process ''P3'' 2 8 0] =
     {#process ''P1'' 0 5 0, process ''P2'' 1 3 0, process ''P3'' 2 8 0#}" by simp
  have two: "Suc (Suc 0) = 2" by simp
  show ?thesis
    using C2_RR_scenario [OF m insertion_sort_ok, of 0 "''RR''"] m insertion_sort_ok
    unfolding two by blast
qed

text \<open>
  Claim C3. FCFSSchedule serves the processes in the order given: row and Gantt slice
  number \<open>i\<close> belong to process number \<open>i\<close>. The clock starts at 0 and is advanced by
  each burst, so before process \<open>i\<close> it is the sum of the bursts of the first \<open>i\<close>
  processes, and the slice of process \<open>i\<close> stops at the sum of the first \<open>i + 1\<close>. A
  process with ArrivalTime > 0 gets WaitingTime = clock - ArrivalTime, unclamped; any
  other process (ArrivalTime = 0 among them) gets the WaitingTime of the row before
  it, and 0 when it is the first.
\<close>

theorem C3_FCFS_waiting:
  "\<exists>g rs aw at th.
     FCFSSchedule title ps = Inr [outputTitle title, outputGantt g, outputSchedule rs aw at th]
     \<and> length g = length ps \<and> length rs = length ps
     \<and> (\<forall>i<length ps.
          PID (g ! i) = ProcessID (ps ! i)
        \<and> row_ProcessID (rs ! i) = Some (ProcessID (ps ! i))
        \<and> Stop (g ! i) = sum_list (map BurstDuration (take (Suc i) ps))
        \<and> row_WaitingTime (rs ! i) =
            (if 0 <s ArrivalTime (ps ! i)
             then Some (sum_list (map BurstDuration (take i ps)) - ArrivalTime (ps ! i))
             else if i = 0 then Some 0 else row_WaitingTime (rs ! (i - 1))))"
proof -
  let ?g = "map (\<lambda>i. slice_after ps i (FCFS_at ps (Suc i))) [0..<length ps]"
  let ?rs = "map (\<lambda>i. row_after ps i (FCFS_at ps (Suc i))) [0..<length ps]"
  have each: "PID (?g ! i) = ProcessID (ps ! i)
        \<and> row_ProcessID (?rs ! i) = Some (ProcessID (ps ! i))
        \<and> Stop (?g ! i) = sum_list (map BurstDuration (take (Suc i) ps))
        \<and> row_WaitingTime (?rs ! i) =
            (if 0 <s ArrivalTime (ps ! i)
             then Some (sum_list (map BurstDuration (take i ps)) - ArrivalTime (ps ! i))
             else if i = 0 then Some 0 else row_WaitingTime (?rs ! (i - 1)))"
    if i: "i < length ps" for i
  proof -
    have stop: "serviceTime (FCFS_at ps (Suc i)) = sum_list (map BurstDuration (take (Suc i) ps))"
      using i by (intro FCFS_at_serviceTime) simp
    have first: "waitingTime (FCFS_at ps 0) = 0"
      by (simp add: FCFS_at_simps)
    have prev: "row_WaitingTime (?rs ! (i - 1)) = Some (waitingTime (FCFS_at ps i))" if "i \<noteq> 0"
    proof -
      from that obtain j where j: "i = Suc j" by (cases i) auto
      with i show ?thesis by simp
    qed
    have rowi: "row_WaitingTime (?rs ! i) = Some (waitingTime (FCFS_at ps (Suc i)))"
      and gi: "?g ! i = slice_after ps i (FCFS_at ps (Suc i))"
      and pidi: "row_ProcessID (?rs ! i) = Some (ProcessID (ps ! i))"
      using i by simp_all
    show ?thesis
      unfolding rowi gi pidi FCFS_row_waiting [OF i]
      using stop first prev by (cases "i = 0") simp_all
  qed
  then have all: "\<forall>i<length ps.
          PID (?g ! i) = ProcessID (ps ! i)
        \<and> row_ProcessID (?rs ! i) = Some (ProcessID (ps ! i))
        \<and> Stop (?g ! i) = sum_list (map BurstDuration (take (Suc i) ps))
        \<and> row_WaitingTime (?rs ! i) =
            (if 0 <s ArrivalTime (ps ! i)
             then Some (sum_list (map BurstDuration (take i ps)) - ArrivalTime (ps ! i))
             else if i = 0 then Some 0 else row_WaitingTime (?rs ! (i - 1)))"
    by blast
  show ?thesis
    apply (rule exI [of _ ?g])
    apply (rule exI [of _ ?rs])
    apply (intro exI conjI)
       apply (rule FCFS_result)
      apply simp
     apply simp
    apply (rule all)
    done
qed

theorem C3_FCFS_waiting_witness:
  "(0::nat) < length [process ''P2'' 1 3 0, process ''P1'' 0 5 0, process ''P3'' 2 8 0]
   \<and> (1::nat) < length [process ''P2'' 1 3 0, process ''P1'' 0 5 0, process ''P3'' 2 8 0]
   \<and> (\<exists>g rs aw at th.
        FCFSSchedule ''FCFS'' [process ''P2'' 1 3 0, process ''P1'' 0 5 0, process ''P3'' 2 8 0] =
          Inr [outputTitle ''FCFS'', outputGantt g, outputSchedule rs aw at th]
        \<and> row_WaitingTime (rs ! 0) = Some (- 1) \<and> Stop (g ! 0) = 3
        \<and> row_WaitingTime (rs ! 1) = Some (- 1) \<and> Stop (g ! 1) = 8)"
proof -
  let ?ps = "[process ''P2'' 1 3 0, process ''P1'' 0 5 0, process ''P3'' 2 8 0]"
  obtain g rs aw at th where
    res: "FCFSSchedule ''FCFS'' ?ps = Inr [outputTitle ''FCFS'', outputGantt g, outputSchedule rs aw at th]"
    and all: "\<forall>i<length ?ps.
          PID (g ! i) = ProcessID (?ps ! i)
        \<and> row_ProcessID (rs ! i) = Some (ProcessID (?ps ! i))
        \<and> Stop (g ! i) = sum_list (map BurstDuration (take (Suc i) ?ps))
        \<and> row_WaitingTime (rs ! i) =
            (if 0 <s ArrivalTime (?ps ! i)
             then Some (sum_list (map BurstDuration (take i ?ps)) - ArrivalTime (?ps ! i))
             else if i = 0 then Some 0 else row_WaitingTime (rs ! (i - 1)))"
    using C3_FCFS_waiting [of "''FCFS''" ?ps] by blast
  have zero: "row_WaitingTime (rs ! 0) = Some (- 1) \<and> Stop (g ! 0) = 3"
    using all [rule_format, of 0] by (simp add: process_def word_sless_alt)
  have one: "row_WaitingTime (rs ! 1) = row_WaitingTime (rs ! 0) \<and> Stop (g ! 1) = 8"
    using all [rule_format, of 1] by (simp add: process_def word_sless_alt)
  show ?thesis
    using res zero one by auto
qed

text \<open>
  Claim C4. SJFSchedule sorts the batch ascending by BurstDuration and then serves it
  as FCFSSchedule does: the clock starts at 0 and is advanced by each burst and by
  nothing else, so the slice of the process in place \<open>i\<close> of the sorted batch stops at the
  sum of the first \<open>i + 1\<close> bursts whether or not the process had arrived (no idle gap).
  A process with ArrivalTime > 0 gets WaitingTime = clock - ArrivalTime, raised to 0
  when negative (\<open>clamp0\<close>); any other process gets the WaitingTime of the row before
  it, and 0 when it is the first.
\<close>

theorem C4_SJF_waiting:
  assumes "sort_Slice_ok srt less_burst ps"
  shows "\<exists>qs g rs aw at th.
     SJFSchedule srt title ps = Inr [outputTitle title, outputGantt g, outputSchedule rs aw at th]
     \<and> qs = srt less_burst ps
     \<and> mset qs = mset ps \<and> sorted_wrt (\<lambda>p q. BurstDuration p \<le>s BurstDuration q) qs
     \<and> (\<forall>v i. \<not> (0 <s ArrivalTime (qs ! i) \<and> serviceTime v - ArrivalTime (qs ! i) <s 0)
            \<longrightarrow> SJF_body qs v i = FCFS_body qs v i)
     \<and> length g = length ps \<and> length rs = length ps
     \<and> (\<forall>i<length ps.
          PID (g ! i) = ProcessID (qs ! i)
        \<and> row_ProcessID (rs ! i) = Some (ProcessID (qs ! i))
        \<and> Stop (g ! i) = sum_list (map BurstDuration (take (Suc i) qs))
        \<and> row_WaitingTime (rs ! i) =
            (if 0 <s ArrivalTime (qs ! i)
             then Some (clamp0 (sum_list (map BurstDuration (take i qs)) - ArrivalTime (qs ! i)))
             else if i = 0 then Some 0 else row_WaitingTime (rs ! (i - 1))))"
proof -
  let ?qs = "srt less_burst ps"
  let ?g = "map (\<lambda>i. slice_after ?qs i (SJF_at ?qs (Suc i))) [0..<length ?qs]"
  let ?rs = "map (\<lambda>i. row_after ?qs i (SJF_at ?qs (Suc i))) [0..<length ?qs]"
  have len: "length ?qs = length ps"
    using assms by (rule sort_Slice_length)
  have perm: "mset ?qs = mset ps"
    using assms by (simp add: sort_Slice_ok_def)
  have "sorted_wrt (\<lambda>a b. \<not> less_burst b a) ?qs"
    using assms by (simp add: sort_Slice_ok_def)
  then have sorted: "sorted_wrt (\<lambda>p q. BurstDuration p \<le>s BurstDuration q) ?qs"
    by (simp add: less_burst_def word_sless_alt word_sle_eq not_less)
  have each: "PID (?g ! i) = ProcessID (?qs ! i)
        \<and> row_ProcessID (?rs ! i) = Some (ProcessID (?qs ! i))
        \<and> Stop (?g ! i) = sum_list (map BurstDuration (take (Suc i) ?qs))
        \<and> row_WaitingTime (?rs ! i) =
            (if 0 <s ArrivalTime (?qs ! i)
             then Some (clamp0 (sum_list (map BurstDuration (take i ?qs)) - ArrivalTime (?qs ! i)))
             else if i = 0 then Some 0 else row_WaitingTime (?rs ! (i - 1)))"
    if i: "i < length ?qs" for i
  proof -
    have stop: "serviceTime (SJF_at ?qs (Suc i)) = sum_list (map BurstDuration (take (Suc i) ?qs))"
      using i by (intro SJF_at_serviceTime) simp
    have first: "waitingTime (SJF_at ?qs 0) = 0"
      by (simp add: SJF_at_simps)
    have prev: "row_WaitingTime (?rs ! (i - 1)) = Some (waitingTime (SJF_at ?qs i))" if "i \<noteq> 0"
    proof -
      from that obtain j where j: "i = Suc j" by (cases i) auto
      with i show ?thesis by simp
    qed
    have rowi: "row_WaitingTime (?rs ! i) = Some (waitingTime (SJF_at ?qs (Suc i)))"
      and gi: "?g ! i = slice_after ?qs i (SJF_at ?qs (Suc i))"
      and pidi: "row_ProcessID (?rs ! i) = Some (ProcessID (?qs ! i))"
      using i by simp_all
    show ?thesis
      unfolding rowi gi pidi SJF_row_waiting [OF i]
      using stop first prev by (cases "i = 0") simp_all
  qed
  then have all: "\<forall>i<length ps.
          PID (?g ! i) = ProcessID (?qs ! i)
        \<and> row_ProcessID (?rs ! i) = Some (ProcessID (?qs ! i))
        \<and> Stop (?g ! i) = sum_list (map BurstDuration (take (Suc i) ?qs))
        \<and> row_WaitingTime (?rs ! i) =
            (if 0 <s ArrivalTime (?qs ! i)
             then Some (clamp0 (sum_list (map BurstDuration (take i ?qs)) - ArrivalTime (?qs ! i)))
             else if i = 0 then Some 0 else row_WaitingTime (?rs ! (i - 1)))"
    unfolding len by blast
  have res: "SJFSchedule srt title ps =
      Inr [outputTitle title, outputGantt ?g, outputSchedule ?rs
            (FDiv (totalWait (SJF_loop ?qs)) (Float64 (int (length ?qs))))
            (FDiv (totalTurnaround (SJF_loop ?qs)) (Float64 (int (length ?qs))))
            (FDiv (Float64 (int (length ?qs))) (lastCompletion (SJF_loop ?qs)))]"
    by (simp add: SJF_result Let_def)
  show ?thesis
    apply (rule exI [of _ ?qs])
    apply (rule exI [of _ ?g])
    apply (rule exI [of _ ?rs])
    apply (intro exI conjI)
           apply (rule res)
          apply (rule refl)
         apply (rule perm)
        apply (rule sorted)
       apply (simp add: SJF_body_def FCFS_body_def Let_def)
      apply (simp add: len)
     apply (simp add: len)
    apply (rule all)
    done
qed

theorem C4_SJF_waiting_witness:
  "sort_Slice_ok insertion_sort less_burst
     [process ''P1'' 0 5 0, process ''P2'' 1 3 0, process ''P3'' 2 8 0]
   \<and> (\<exists>g rs aw at th.
        SJFSchedule insertion_sort ''SJF''
            [process ''P1'' 0 5 0, process ''P2'' 1 3 0, process ''P3'' 2 8 0] =
          Inr [outputTitle ''SJF'', outputGantt g, outputSchedule rs aw at th]
        \<and> row_ProcessID (rs ! 0) = Some ''P2'' \<and> row_WaitingTime (rs ! 0) = Some 0 \<and> Stop (g ! 0) = 3
        \<and> row_ProcessID (rs ! 1) = Some ''P1'' \<and> row_WaitingTime (rs ! 1) = Some 0 \<and> Stop (g ! 1) = 8
        \<and> row_ProcessID (rs ! 2) = Some ''P3'' \<and> row_WaitingTime (rs ! 2) = Some 6 \<and> Stop (g ! 2) = 16)
   \<and> \<not> (0 <s ArrivalTime (process ''P1'' 0 5 0) \<and> (0::int64) - ArrivalTime (process ''P1'' 0 5 0) <s 0)
   \<and> SJF_body [process ''P2'' 1 3 0, process ''P1'' 0 5 0, process ''P3'' 2 8 0]
        (init_vars [process ''P2'' 1 3 0, process ''P1'' 0 5 0, process ''P3'' 2 8 0]) 1
      = FCFS_body [process ''P2'' 1 3 0, process ''P1'' 0 5 0, process ''P3'' 2 8 0]
        (init_vars [process ''P2'' 1 3 0, process ''P1'' 0 5 0, process ''P3'' 2 8 0]) 1"
proof -
  let ?ps = "[process ''P1'' 0 5 0, process ''P2'' 1 3 0, process ''P3'' 2 8 0]"
  let ?qs = "[process ''P2'' 1 3 0, process ''P1'' 0 5 0, process ''P3'' 2 8 0]"
  have ok: "sort_Slice_ok insertion_sort less_burst ?ps"
    by (rule insertion_sort_ok)
  have sorted: "insertion_sort less_burst ?ps = ?qs"
    by (simp add: insertion_sort_def less_burst_def process_def word_sless_alt)
  obtain g rs aw at th where
    res: "SJFSchedule insertion_sort ''SJF'' ?ps =
            Inr [outputTitle ''SJF'', outputGantt g, outputSchedule rs aw at th]"
    and same: "\<forall>v i. \<not> (0 <s ArrivalTime (?qs ! i) \<and> serviceTime v - ArrivalTime (?qs ! i) <s 0)
            \<longrightarrow> SJF_body ?qs v i = FCFS_body ?qs v i"
    and len: "length g = length ?ps" "length rs = length ?ps"
    and all: "\<forall>i<length ?ps.
          PID (g ! i) = ProcessID (?qs ! i)
        \<and> row_ProcessID (rs ! i) = Some (ProcessID (?qs ! i))
        \<and> Stop (g ! i) = sum_list (map BurstDuration (take (Suc i) ?qs))
        \<and> row_WaitingTime (rs ! i) =
            (if 0 <s ArrivalTime (?qs ! i)
             then Some (clamp0 (sum_list (map BurstDuration (take i ?qs)) - ArrivalTime (?qs ! i)))
             else if i = 0 then Some 0 else row_WaitingTime (rs ! (i - 1)))"
    using C4_SJF_waiting [OF ok, of "''SJF''"] unfolding sorted by blast
  have r0: "row_ProcessID (rs ! 0) = Some ''P2'' \<and> row_WaitingTime (rs ! 0) = Some 0 \<and> Stop (g ! 0) = 3"
    using all [rule_format, of 0] by (simp add: process_def word_sless_alt clamp0_def)
  have r1: "row_ProcessID (rs ! 1) = Some ''P1'' \<and> row_WaitingTime (rs ! 1) = row_WaitingTime (rs ! 0)
      \<and> Stop (g ! 1) = 8"
    using all [rule_format, of 1] by (simp add: process_def word_sless_alt clamp0_def)
  have r2: "row_ProcessID (rs ! 2) = Some ''P3'' \<and> row_WaitingTime (rs ! 2) = Some 6 \<and> Stop (g ! 2) = 16"
    using all [rule_format, of 2] by (simp add: process_def word_sless_alt clamp0_def)
  have b: "\<not> (0 <s ArrivalTime (process ''P1'' 0 5 0) \<and> (0::int64) - ArrivalTime (process ''P1'' 0 5 0) <s 0)"
    by (simp add: process_def)
  have "SJF_body ?qs (init_vars ?qs) 1 = FCFS_body ?qs (init_vars ?qs) 1"
    using same [rule_format, of 1 "init_vars ?qs"] b by simp
  then show ?thesis
    using ok res r0 r1 r2 b by auto
qed

text \<open>
  Claim C5. The body of SJFPrioritySchedule's loop is the body of SJFSchedule's loop run
  after \<open>advance_clock\<close>, which sets serviceTime to the ArrivalTime of the process at
  hand when serviceTime is below it and changes nothing else; after it the process has
  arrived. Sorting, the initial values, the range of the loop and the tail that
  computes the aggregates and calls the renderers (\<open>report\<close>) are the same in both
  functions.
\<close>

theorem C5_SJFPriority_advances_clock:
  "SJFPriority_body qs v i = SJF_body qs (advance_clock qs i v) i
   \<and> advance_clock qs i v =
       v\<lparr>serviceTime := (if serviceTime v <s ArrivalTime (qs ! i) then ArrivalTime (qs ! i)
                          else serviceTime v)\<rparr>
   \<and> ArrivalTime (qs ! i) \<le>s serviceTime (advance_clock qs i v)
   \<and> SJF_loop qs = foldl (SJF_body qs) (init_vars qs) [0..<length qs]
   \<and> SJFPriority_loop qs =
       foldl (\<lambda>v i. SJF_body qs (advance_clock qs i v) i) (init_vars qs) [0..<length qs]
   \<and> SJFSchedule srt title ps =
       report title (srt less_burst ps) (SJF_loop (srt less_burst ps))
   \<and> SJFPrioritySchedule srt title ps =
       report title (srt less_burst ps) (SJFPriority_loop (srt less_burst ps))"
proof (intro conjI)
  show "SJFPriority_body qs v i = SJF_body qs (advance_clock qs i v) i"
    by (rule SJFPriority_body_eq)
  show "advance_clock qs i v =
       v\<lparr>serviceTime := (if serviceTime v <s ArrivalTime (qs ! i) then ArrivalTime (qs ! i)
                          else serviceTime v)\<rparr>"
    by (simp add: advance_clock_def)
  show "ArrivalTime (qs ! i) \<le>s serviceTime (advance_clock qs i v)"
    by (simp add: advance_clock_def word_sle_eq word_sless_alt)
  show "SJF_loop qs = foldl (SJF_body qs) (init_vars qs) [0..<length qs]"
    by (simp add: SJF_loop_def)
  have "SJFPriority_body qs = (\<lambda>v i. SJF_body qs (advance_clock qs i v) i)"
    by (intro ext) (rule SJFPriority_body_eq)
  then show "SJFPriority_loop qs =
       foldl (\<lambda>v i. SJF_body qs (advance_clock qs i v) i) (init_vars qs) [0..<length qs]"
    by (simp add: SJFPriority_loop_def)
  show "SJFSchedule srt title ps =
       report title (srt less_burst ps) (SJF_loop (srt less_burst ps))"
    by (simp add: SJFSchedule_def report_def Let_def)
  show "SJFPrioritySchedule srt title ps =
       report title (srt less_burst ps) (SJFPriority_loop (srt less_burst ps))"
    by (simp add: SJFPrioritySchedule_def report_def Let_def)
qed

text \<open>
  Claim C6, as the code has it. For every batch RRSchedule leaves its middle loop after
  at most two passes, so it always returns. The first pass runs every process whose
  remaining time is positive to completion in one step (the clock grows by its burst,
  its turnaround is the new clock minus its arrival, its remaining time becomes 0) and
  leaves the others untouched; there is no quantum and nothing is queued again. If the
  first pass ran a process it leaves \<open>done\<close> false, and a second pass, which changes
  nothing, ends the loop. One pass is enough exactly when no process has a positive
  burst.
\<close>

theorem C6_RR_loop_two_passes:
  assumes "sort_Slice_ok srt less_burst ps"
  shows "(\<exists>out. RRSchedule (Suc (Suc k)) srt title ps = Some (Inr out))
    \<and> RRSchedule 0 srt title ps = None
    \<and> (RRSchedule 1 srt title ps = None) = (\<exists>p\<in>set ps. 0 <s BurstDuration p)
    \<and> (let n = length ps; qs = srt less_burst ps;
            v0 = foldl (RR_fill_body qs) (rr_init n) [0..<n];
            v1 = snd (RR_pass n v0)
        in fst (RR_pass n v0) = (\<not> (\<exists>p\<in>set ps. 0 <s BurstDuration p))
         \<and> RR_pass n v1 = (True, v1)
         \<and> RR_passes (Suc (Suc k)) n v0 = Some v1
         \<and> (\<forall>i<n.
               remainingTime v1 ! i =
                 (if 0 <s BurstDuration (qs ! i) then 0 else BurstDuration (qs ! i))
             \<and> turnaroundTime v1 ! i =
                 (if 0 <s BurstDuration (qs ! i)
                  then RR_clock qs i + BurstDuration (qs ! i) - ArrivalTime (qs ! i) else 0)
             \<and> RR_clock qs (Suc i) =
                 RR_clock qs i + (if 0 <s BurstDuration (qs ! i) then BurstDuration (qs ! i) else 0))
         \<and> RR_clock qs 0 = 0
         \<and> currentTime v1 = RR_clock qs n)"
proof -
  let ?n = "length ps" and ?qs = "srt less_burst ps"
  let ?ini = "foldl (RR_fill_body ?qs) (rr_init ?n) [0..<?n]"
  have pos: "(\<exists>i<?n. 0 <s BurstDuration (?qs ! i)) = (\<exists>p\<in>set ps. 0 <s BurstDuration p)"
    using assms by (rule sort_Slice_positive)
  have pass: "RR_pass ?n ?ini = (\<not> (\<exists>p\<in>set ps. 0 <s BurstDuration p), scanned ?n ?ini)"
  proof -
    have "(\<forall>i<?n. \<not> 0 <s BurstDuration (?qs ! i)) = (\<not> (\<exists>p\<in>set ps. 0 <s BurstDuration p))"
      unfolding pos [symmetric] by blast
    then show ?thesis
      unfolding RR_first_pass(1) by simp
  qed
  have a: "\<exists>out. RRSchedule (Suc (Suc k)) srt title ps = Some (Inr out)"
    by (simp add: RR_result)
  have b: "RRSchedule 0 srt title ps = None"
    by (simp add: RRSchedule_def)
  have c: "(RRSchedule 1 srt title ps = None) = (\<exists>p\<in>set ps. 0 <s BurstDuration p)"
    unfolding One_nat_def RRSchedule_one pos ..
  have d: "\<forall>i<?n.
               remainingTime (scanned ?n ?ini) ! i =
                 (if 0 <s BurstDuration (?qs ! i) then 0 else BurstDuration (?qs ! i))
             \<and> turnaroundTime (scanned ?n ?ini) ! i =
                 (if 0 <s BurstDuration (?qs ! i)
                  then RR_clock ?qs i + BurstDuration (?qs ! i) - ArrivalTime (?qs ! i) else 0)
             \<and> RR_clock ?qs (Suc i) =
                 RR_clock ?qs i + (if 0 <s BurstDuration (?qs ! i) then BurstDuration (?qs ! i) else 0)"
    by (simp add: RR_first_pass(6,7) RR_clock_Suc run_now_def)
  have e: "RR_clock ?qs 0 = 0"
    by (simp add: RR_clock_def)
  show ?thesis
    unfolding Let_def pass snd_conv fst_conv
    using a b c d e RR_first_pass(2,3,5) [where qs = ?qs and n = ?n] by blast
qed

theorem C6_RR_loop_two_passes_witness:
  "sort_Slice_ok insertion_sort less_burst
     [process ''P1'' 0 5 0, process ''P2'' 1 3 0, process ''P3'' 2 8 0]
   \<and> (\<exists>out. RRSchedule 2 insertion_sort ''RR''
         [process ''P1'' 0 5 0, process ''P2'' 1 3 0, process ''P3'' 2 8 0] = Some (Inr out))
   \<and> RRSchedule 1 insertion_sort ''RR''
         [process ''P1'' 0 5 0, process ''P2'' 1 3 0, process ''P3'' 2 8 0] = None
   \<and> (1::nat) < length [process ''P1'' 0 5 0, process ''P2'' 1 3 0, process ''P3'' 2 8 0]
   \<and> turnaroundTime (snd (RR_pass 3
        (foldl (RR_fill_body [process ''P2'' 1 3 0, process ''P1'' 0 5 0, process ''P3'' 2 8 0])
           (rr_init 3) [0..<3]))) ! 1 = 8"
proof -
  let ?ps = "[process ''P1'' 0 5 0, process ''P2'' 1 3 0, process ''P3'' 2 8 0]"
  let ?qs = "[process ''P2'' 1 3 0, process ''P1'' 0 5 0, process ''P3'' 2 8 0]"
  have ok: "sort_Slice_ok insertion_sort less_burst ?ps"
    by (rule insertion_sort_ok)
  have sorted: "insertion_sort less_burst ?ps = ?qs"
    by (simp add: insertion_sort_def less_burst_def process_def word_sless_alt)
  have len: "length ?ps = 3" by simp
  have two: "Suc (Suc 0) = 2" by simp
  have pos: "\<exists>p\<in>set ?ps. 0 <s BurstDuration p"
    by (simp add: process_def word_sless_alt)
  note inst = C6_RR_loop_two_passes [OF ok, of 0 "''RR''", unfolded Let_def sorted len two]
  have "RR_clock ?qs 0 = 0"
    using inst by blast
  moreover have "RR_clock ?qs (Suc 0) =
      RR_clock ?qs 0 + (if 0 <s BurstDuration (?qs ! 0) then BurstDuration (?qs ! 0) else 0)"
    using inst by (elim conjE) (drule spec [of _ 0], simp)
  ultimately have c1: "RR_clock ?qs 1 = 3"
    by (simp add: process_def word_sless_alt)
  have "turnaroundTime (snd (RR_pass 3 (foldl (RR_fill_body ?qs) (rr_init 3) [0..<3]))) ! 1 =
      (if 0 <s BurstDuration (?qs ! 1)
       then RR_clock ?qs 1 + BurstDuration (?qs ! 1) - ArrivalTime (?qs ! 1) else 0)"
    using inst by (elim conjE) (drule spec [of _ 1], simp)
  then have t: "turnaroundTime (snd (RR_pass 3 (foldl (RR_fill_body ?qs) (rr_init 3) [0..<3]))) ! 1 = 8"
    using c1 by (simp add: process_def word_sless_alt)
  show ?thesis
    using ok inst pos t by simp
qed

text \<open>
  Claim C6 as stated fails. With one process of burst 5 the first pass leaves \<open>done\<close>
  false, so one pass does not end the loop and a second one is needed. And a remaining
  time that is not zero but negative is never run: the process of burst -4 leaves the
  clock at 0 and its turnaround at 0.
\<close>

theorem C6_counterexample:
  "RRSchedule 1 insertion_sort ''RR'' [process ''P1'' 0 5 0] = None
   \<and> RRSchedule 2 insertion_sort ''RR'' [process ''P1'' 0 5 0] =
       Some (Inr [outputTitle ''RR'',
                  outputSchedule
                    [[Sprint_string ''P1'', Sprint_int64 0, Sprint_int64 5, Sprint_int64 0,
                      Sprint_int64 0, Sprint_int64 5]]
                    (FDiv (Float64 0) (Float64 1)) (FDiv (Float64 5) (Float64 1))
                    (FDiv (Float64 1) (Float64 5))])
   \<and> RRSchedule 1 insertion_sort ''RR'' [process ''N'' 0 (- 4) 0] =
       Some (Inr [outputTitle ''RR'',
                  outputSchedule
                    [[Sprint_string ''N'', Sprint_int64 0, Sprint_int64 (- 4), Sprint_int64 0,
                      Sprint_int64 4, Sprint_int64 0]]
                    (FDiv (Float64 4) (Float64 1)) (FDiv (Float64 0) (Float64 1))
                    (FDiv (Float64 1) (Float64 0))])"
  by code_simp

text \<open>
  Claim C7, as the code has it. On an empty batch every policy returns normally, with no
  error: it calls the renderers with an empty table (and, but for RRSchedule, an empty
  Gantt chart), and each of the three aggregates is the \<^verbatim>\<open>float64\<close> quotient of zero
  by zero, which is NaN. RRSchedule leaves its loop after one pass.
\<close>

theorem C7_empty_batch_returns:
  assumes "sort_Slice_ok srt less_burst []"
  shows "FCFSSchedule title [] =
      Inr [outputTitle title, outputGantt [],
           outputSchedule [] (FDiv (Float64 0) (Float64 0)) (FDiv (Float64 0) (Float64 0))
             (FDiv (Float64 0) (Float64 0))]
    \<and> SJFSchedule srt title [] =
      Inr [outputTitle title, outputGantt [],
           outputSchedule [] (FDiv (Float64 0) (Float64 0)) (FDiv (Float64 0) (Float64 0))
             (FDiv (Float64 0) (Float64 0))]
    \<and> SJFPrioritySchedule srt title [] =
      Inr [outputTitle title, outputGantt [],
           outputSchedule [] (FDiv (Float64 0) (Float64 0)) (FDiv (Float64 0) (Float64 0))
             (FDiv (Float64 0) (Float64 0))]
    \<and> RRSchedule (Suc k) srt title [] =
      Some (Inr [outputTitle title,
           outputSchedule [] (FDiv (Float64 0) (Float64 0)) (FDiv (Float64 0) (Float64 0))
             (FDiv (Float64 0) (Float64 0))])"
proof -
  have nil: "srt less_burst [] = []"
    using assms by (rule sort_Slice_Nil)
  show ?thesis
    by (simp add: FCFSSchedule_def FCFS_loop_def SJFSchedule_def SJF_loop_def
        SJFPrioritySchedule_def SJFPriority_loop_def RRSchedule_def RR_pass_def rr_init_def
        nil init_vars_def Let_def)
qed

theorem C7_empty_batch_returns_witness:
  "sort_Slice_ok insertion_sort less_burst []
   \<and> FCFSSchedule ''batch'' [] =
      Inr [outputTitle ''batch'', outputGantt [],
           outputSchedule [] (FDiv (Float64 0) (Float64 0)) (FDiv (Float64 0) (Float64 0))
             (FDiv (Float64 0) (Float64 0))]
   \<and> SJFSchedule insertion_sort ''batch'' [] =
      Inr [outputTitle ''batch'', outputGantt [],
           outputSchedule [] (FDiv (Float64 0) (Float64 0)) (FDiv (Float64 0) (Float64 0))
             (FDiv (Float64 0) (Float64 0))]
   \<and> RRSchedule 1 insertion_sort ''batch'' [] =
      Some (Inr [outputTitle ''batch'',
           outputSchedule [] (FDiv (Float64 0) (Float64 0)) (FDiv (Float64 0) (Float64 0))
             (FDiv (Float64 0) (Float64 0))])"
  using C7_empty_batch_returns [OF insertion_sort_ok, where title = "''batch''" and k = 0]
    insertion_sort_ok [of "[]"]
  by simp

text \<open>
  Claim C7 as stated fails: on the empty batch no policy fails with EmptyBatchError; each
  returns, having computed 0.0 / 0.0 three times.
\<close>

theorem C7_counterexample:
  "FCFSSchedule ''FCFS'' [] \<noteq> Inl EmptyBatchError
   \<and> SJFSchedule insertion_sort ''SJF'' [] \<noteq> Inl EmptyBatchError
   \<and> SJFPrioritySchedule insertion_sort ''SJFP'' [] \<noteq> Inl EmptyBatchError
   \<and> RRSchedule 1 insertion_sort ''RR'' [] \<noteq> Some (Inl EmptyBatchError)
   \<and> FCFSSchedule ''FCFS'' [] =
      Inr [outputTitle ''FCFS'', outputGantt [],
           outputSchedule [] (FDiv (Float64 0) (Float64 0)) (FDiv (Float64 0) (Float64 0))
             (FDiv (Float64 0) (Float64 0))]"
  by code_simp

text \<open>
  Claim C8, as the code has it. For a batch of one process that arrives at 0,
  FCFSSchedule, SJFSchedule and SJFPrioritySchedule write WaitingTime = 0 and
  TurnaroundTime = CompletionTime = BurstDuration, one Gantt slice from 0 to
  BurstDuration, and the throughput float64(1) / float64(CompletionTime). RRSchedule
  does so too when BurstDuration is not negative, except that it writes no
  CompletionTime: its throughput is float64(1) / float64(BurstDuration).
\<close>

theorem C8_single_process:
  assumes "sort_Slice_ok srt less_burst [p]" and "ArrivalTime p = 0"
  shows "(\<exists>r aw at.
        FCFSSchedule title [p] =
          Inr [outputTitle title,
               outputGantt [\<lparr>PID = ProcessID p, Start = 0, Stop = BurstDuration p\<rparr>],
               outputSchedule [r] aw at (FDiv (Float64 1) (Float64 (sint (BurstDuration p))))]
        \<and> row_ProcessID r = Some (ProcessID p) \<and> row_WaitingTime r = Some 0
        \<and> row_TurnaroundTime r = Some (BurstDuration p)
        \<and> row_CompletionTime r = Some (BurstDuration p))
    \<and> (\<exists>r aw at.
        SJFSchedule srt title [p] =
          Inr [outputTitle title,
               outputGantt [\<lparr>PID = ProcessID p, Start = 0, Stop = BurstDuration p\<rparr>],
               outputSchedule [r] aw at (FDiv (Float64 1) (Float64 (sint (BurstDuration p))))]
        \<and> row_ProcessID r = Some (ProcessID p) \<and> row_WaitingTime r = Some 0
        \<and> row_TurnaroundTime r = Some (BurstDuration p)
        \<and> row_CompletionTime r = Some (BurstDuration p))
    \<and> (\<exists>r aw at.
        SJFPrioritySchedule srt title [p] =
          Inr [outputTitle title,
               outputGantt [\<lparr>PID = ProcessID p, Start = 0, Stop = BurstDuration p\<rparr>],
               outputSchedule [r] aw at (FDiv (Float64 1) (Float64 (sint (BurstDuration p))))]
        \<and> row_ProcessID r = Some (ProcessID p) \<and> row_WaitingTime r = Some 0
        \<and> row_TurnaroundTime r = Some (BurstDuration p)
        \<and> row_CompletionTime r = Some (BurstDuration p))
    \<and> (0 \<le>s BurstDuration p \<longrightarrow>
        (\<exists>r aw at.
          RRSchedule (Suc (Suc k)) srt title [p] =
            Some (Inr [outputTitle title,
                 outputSchedule [r] aw at (FDiv (Float64 1) (Float64 (sint (BurstDuration p))))])
          \<and> row_ProcessID r = Some (ProcessID p) \<and> row_WaitingTime r = Some 0
          \<and> row_TurnaroundTime r = Some (BurstDuration p)
          \<and> row_CompletionTime r = None))"
proof -
  have one: "srt less_burst [p] = [p]"
    using assms(1) by (rule sort_Slice_single)
  have arr: "\<not> 0 <s ArrivalTime p" "\<not> 0 <s (0::int64)"
    using assms(2) by simp_all
  have cols: "row_ProcessID (schedule_row p 0 (BurstDuration p) (BurstDuration p)) = Some (ProcessID p)"
    "row_WaitingTime (schedule_row p 0 (BurstDuration p) (BurstDuration p)) = Some 0"
    "row_TurnaroundTime (schedule_row p 0 (BurstDuration p) (BurstDuration p)) = Some (BurstDuration p)"
    "row_CompletionTime (schedule_row p 0 (BurstDuration p) (BurstDuration p)) = Some (BurstDuration p)"
    by (simp_all add: schedule_row_def row_ProcessID_def row_WaitingTime_def
        row_TurnaroundTime_def row_CompletionTime_def column_def)
  have fcfs: "FCFSSchedule title [p] =
          Inr [outputTitle title,
               outputGantt [\<lparr>PID = ProcessID p, Start = 0, Stop = BurstDuration p\<rparr>],
               outputSchedule [schedule_row p 0 (BurstDuration p) (BurstDuration p)]
                 (FDiv (FAdd (Float64 0) (Float64 0)) (Float64 1))
                 (FDiv (FAdd (Float64 0) (Float64 (sint (BurstDuration p)))) (Float64 1))
                 (FDiv (Float64 1) (Float64 (sint (BurstDuration p))))]"
    using assms(2)
    by (simp add: FCFSSchedule_def FCFS_loop_def FCFS_body_def init_vars_def Let_def)
  have sjf: "SJFSchedule srt title [p] =
          Inr [outputTitle title,
               outputGantt [\<lparr>PID = ProcessID p, Start = 0, Stop = BurstDuration p\<rparr>],
               outputSchedule [schedule_row p 0 (BurstDuration p) (BurstDuration p)]
                 (FDiv (FAdd (Float64 0) (Float64 0)) (Float64 1))
                 (FDiv (FAdd (Float64 0) (Float64 (sint (BurstDuration p)))) (Float64 1))
                 (FDiv (Float64 1) (Float64 (sint (BurstDuration p))))]"
    using assms(2)
    by (simp add: SJFSchedule_def SJF_loop_def SJF_body_def init_vars_def Let_def one)
  have sjfp: "SJFPrioritySchedule srt title [p] =
          Inr [outputTitle title,
               outputGantt [\<lparr>PID = ProcessID p, Start = 0, Stop = BurstDuration p\<rparr>],
               outputSchedule [schedule_row p 0 (BurstDuration p) (BurstDuration p)]
                 (FDiv (FAdd (Float64 0) (Float64 0)) (Float64 1))
                 (FDiv (FAdd (Float64 0) (Float64 (sint (BurstDuration p)))) (Float64 1))
                 (FDiv (Float64 1) (Float64 (sint (BurstDuration p))))]"
    using assms(2)
    by (simp add: SJFPrioritySchedule_def SJFPriority_loop_def SJFPriority_body_def
        init_vars_def Let_def one)
  have rr: "RRSchedule (Suc (Suc k)) srt title [p] =
            Some (Inr [outputTitle title,
                 outputSchedule [RR_row p (BurstDuration p)]
                   (FDiv (Float64 (sint (0::int64))) (Float64 1))
                   (FDiv (Float64 (sint (BurstDuration p))) (Float64 1))
                   (FDiv (Float64 1) (Float64 (sint (BurstDuration p))))])"
    if "0 \<le>s BurstDuration p"
  proof -
    have clock: "RR_clock [p] (Suc 0) = BurstDuration p"
      using that by (simp add: RR_clock_def run_now_nonneg)
    have t: "RR_turnaround [p] 0 = BurstDuration p"
      using that assms(2) by (auto simp: RR_turnaround_def clock signed.le_less)
    show ?thesis
      unfolding RR_result one by (simp add: t clock)
  qed
  show ?thesis
    using fcfs sjf sjfp rr cols by simp
qed

theorem C8_single_process_witness:
  "sort_Slice_ok insertion_sort less_burst [process ''P1'' 0 5 0]
   \<and> ArrivalTime (process ''P1'' 0 5 0) = 0
   \<and> 0 \<le>s BurstDuration (process ''P1'' 0 5 0)
   \<and> (\<exists>r aw at.
        FCFSSchedule ''one'' [process ''P1'' 0 5 0] =
          Inr [outputTitle ''one'', outputGantt [\<lparr>PID = ''P1'', Start = 0, Stop = 5\<rparr>],
               outputSchedule [r] aw at (FDiv (Float64 1) (Float64 5))]
        \<and> row_WaitingTime r = Some 0 \<and> row_TurnaroundTime r = Some 5
        \<and> row_CompletionTime r = Some 5)
   \<and> (\<exists>r aw at.
        RRSchedule 2 insertion_sort ''one'' [process ''P1'' 0 5 0] =
          Some (Inr [outputTitle ''one'',
                     outputSchedule [r] aw at (FDiv (Float64 1) (Float64 5))])
        \<and> row_WaitingTime r = Some 0 \<and> row_TurnaroundTime r = Some 5
        \<and> row_CompletionTime r = None)"
proof -
  let ?p = "process ''P1'' 0 5 0"
  have ok: "sort_Slice_ok insertion_sort less_burst [?p]"
    by (rule insertion_sort_ok)
  have arr: "ArrivalTime ?p = 0"
    by (simp add: process_def)
  have burst: "0 \<le>s BurstDuration ?p"
    by (simp add: process_def word_sle_eq)
  have vals: "BurstDuration ?p = 5" "ProcessID ?p = ''P1''"
    by (simp_all add: process_def)
  have two: "Suc (Suc 0) = 2" by simp
  note inst = C8_single_process [OF ok arr, of "''one''" 0, unfolded vals two]
  have f: "\<exists>r aw at.
        FCFSSchedule ''one'' [?p] =
          Inr [outputTitle ''one'', outputGantt [\<lparr>PID = ''P1'', Start = 0, Stop = 5\<rparr>],
               outputSchedule [r] aw at (FDiv (Float64 1) (Float64 5))]
        \<and> row_WaitingTime r = Some 0 \<and> row_TurnaroundTime r = Some 5
        \<and> row_CompletionTime r = Some 5"
    using inst by simp blast
  have "0 \<le>s (5::int64)" by (simp add: word_sle_eq)
  with inst have r: "\<exists>r aw at.
        RRSchedule 2 insertion_sort ''one'' [?p] =
          Some (Inr [outputTitle ''one'',
                     outputSchedule [r] aw at (FDiv (Float64 1) (Float64 5))])
        \<and> row_WaitingTime r = Some 0 \<and> row_TurnaroundTime r = Some 5
        \<and> row_CompletionTime r = None"
    by simp blast
  show ?thesis
    using ok arr burst f r by blast
qed

text \<open>
  Claim C8 as stated fails when the one process arrives after 0. With arrival 3 and
  burst 5, FCFSSchedule writes WaitingTime -3 and TurnaroundTime 2, and SJFSchedule
  writes CompletionTime 8 and the throughput 1 / 8.
\<close>

theorem C8_counterexample:
  "FCFSSchedule ''one'' [process ''P'' 3 5 0] =
     Inr [outputTitle ''one'', outputGantt [\<lparr>PID = ''P'', Start = 0, Stop = 5\<rparr>],
          outputSchedule
            [[Sprint_string ''P'', Sprint_int64 0, Sprint_int64 5, Sprint_int64 3,
              Sprint_int64 (- 3), Sprint_int64 2, Sprint_int64 5]]
            (FDiv (FAdd (Float64 0) (Float64 (- 3))) (Float64 1))
            (FDiv (FAdd (Float64 0) (Float64 2)) (Float64 1))
            (FDiv (Float64 1) (Float64 5))]
   \<and> SJFSchedule insertion_sort ''one'' [process ''P'' 3 5 0] =
     Inr [outputTitle ''one'', outputGantt [\<lparr>PID = ''P'', Start = 3, Stop = 5\<rparr>],
          outputSchedule
            [[Sprint_string ''P'', Sprint_int64 0, Sprint_int64 5, Sprint_int64 3,
              Sprint_int64 0, Sprint_int64 5, Sprint_int64 8]]
            (FDiv (FAdd (Float64 0) (Float64 0)) (Float64 1))
            (FDiv (FAdd (Float64 0) (Float64 5)) (Float64 1))
            (FDiv (Float64 1) (Float64 8))]"
  by code_simp

text \<open>
  Claim C9. Every row that SJFSchedule and SJFPrioritySchedule write has a WaitingTime
  that is not negative, for every batch and every outcome of the sort. FCFSSchedule and
  RRSchedule do write negative waiting times: for the one-process batch that arrives at
  3 with burst 5 both write -3.
\<close>

theorem C9_SJF_waiting_nonnegative:
  "(\<exists>g rs aw at th.
      SJFSchedule srt title ps = Inr [outputTitle title, outputGantt g, outputSchedule rs aw at th]
      \<and> length rs = length (srt less_burst ps)
      \<and> list_all nonneg_waiting rs)
   \<and> (\<exists>g rs aw at th.
      SJFPrioritySchedule srt title ps =
        Inr [outputTitle title, outputGantt g, outputSchedule rs aw at th]
      \<and> length rs = length (srt less_burst ps)
      \<and> list_all nonneg_waiting rs)
   \<and> (\<exists>g rs aw at th.
      FCFSSchedule ''FCFS'' [process ''P'' 3 5 0] =
        Inr [outputTitle ''FCFS'', outputGantt g, outputSchedule rs aw at th]
      \<and> map row_WaitingTime rs = [Some (- 3)]
      \<and> map nonneg_waiting rs = [False])
   \<and> (\<exists>rs aw at th.
      RRSchedule 2 insertion_sort ''RR'' [process ''P'' 3 5 0] =
        Some (Inr [outputTitle ''RR'', outputSchedule rs aw at th])
      \<and> map row_WaitingTime rs = [Some (- 3)]
      \<and> map nonneg_waiting rs = [False])"
proof (intro conjI)
  show "\<exists>g rs aw at th.
      SJFSchedule srt title ps = Inr [outputTitle title, outputGantt g, outputSchedule rs aw at th]
      \<and> length rs = length (srt less_burst ps)
      \<and> list_all nonneg_waiting rs"
    unfolding SJF_result Let_def
    by (simp add: list_all_iff nonneg_waiting_row_after SJF_at_nonneg flip: SJF_at_simps)
  show "\<exists>g rs aw at th.
      SJFPrioritySchedule srt title ps =
        Inr [outputTitle title, outputGantt g, outputSchedule rs aw at th]
      \<and> length rs = length (srt less_burst ps)
      \<and> list_all nonneg_waiting rs"
    unfolding SJFPriority_result Let_def
    by (simp add: list_all_iff nonneg_waiting_row_after SJFPriority_at_nonneg
        flip: SJFPriority_at_simps)
  show "\<exists>g rs aw at th.
      FCFSSchedule ''FCFS'' [process ''P'' 3 5 0] =
        Inr [outputTitle ''FCFS'', outputGantt g, outputSchedule rs aw at th]
      \<and> map row_WaitingTime rs = [Some (- 3)]
      \<and> map nonneg_waiting rs = [False]"
    unfolding FCFS_result
    by (simp add: FCFS_at_simps FCFS_body_waitingTime process_def nonneg_waiting_def
        word_sless_alt word_sle_eq)
  have two: "2 = Suc (Suc 0)" by simp
  have one: "length (insertion_sort less_burst [process ''P'' 3 5 0]) = 1"
    by (simp add: insertion_sort_def)
  show "\<exists>rs aw at th.
      RRSchedule 2 insertion_sort ''RR'' [process ''P'' 3 5 0] =
        Some (Inr [outputTitle ''RR'', outputSchedule rs aw at th])
      \<and> map row_WaitingTime rs = [Some (- 3)]
      \<and> map nonneg_waiting rs = [False]"
    unfolding two RR_result
    by (simp add: insertion_sort_def RR_turnaround_def RR_clock_def run_now_def process_def
        nonneg_waiting_def word_sless_alt word_sle_eq)
qed

text \<open>
  Claim C10, as the code has it. When no BurstDuration of the batch is negative,
  RRSchedule's clock ends at the sum of all burst durations and the throughput it hands
  to the renderer is float64(number of processes) / float64(that sum): neither the arrival
  times nor the order chosen by the sort enter. The sum is the \<^verbatim>\<open>int64\<close> sum; it is
  the sum of the integers whenever that is below 2^63.
\<close>

theorem C10_RR_throughput:
  assumes "sort_Slice_ok srt less_burst ps" and "\<forall>p\<in>set ps. 0 \<le>s BurstDuration p"
  shows "(\<exists>rs aw at.
       RRSchedule (Suc (Suc k)) srt title ps =
         Some (Inr [outputTitle title,
                    outputSchedule rs aw at
                      (FDiv (Float64 (int (length ps)))
                            (Float64 (sint (sum_list (map BurstDuration ps)))))]))
    \<and> (let n = length ps; qs = srt less_burst ps;
            v0 = foldl (RR_fill_body qs) (rr_init n) [0..<n]
        in \<exists>v1. RR_passes (Suc (Suc k)) n v0 = Some v1
              \<and> currentTime v1 = sum_list (map BurstDuration ps)
              \<and> currentTime (foldl (RR_row_body qs) v1 [0..<n]) = sum_list (map BurstDuration ps))
    \<and> ((\<Sum>p\<leftarrow>ps. sint (BurstDuration p)) < 2 ^ 63 \<longrightarrow>
          sint (sum_list (map BurstDuration ps)) = (\<Sum>p\<leftarrow>ps. sint (BurstDuration p)))"
proof -
  let ?n = "length ps" and ?qs = "srt less_burst ps"
  let ?ini = "foldl (RR_fill_body ?qs) (rr_init ?n) [0..<?n]"
  have len: "length ?qs = ?n"
    using assms(1) by (rule sort_Slice_length)
  have perm: "mset ?qs = mset ps"
    using assms(1) by (simp add: sort_Slice_ok_def)
  then have "set ?qs = set ps" by (rule mset_eq_setD)
  with assms(2) have "\<forall>p\<in>set ?qs. 0 \<le>s BurstDuration p" by simp
  with len have "RR_clock ?qs ?n = sum_list (map BurstDuration ?qs)"
    by (rule RR_clock_sum)
  also have "\<dots> = sum_list (map BurstDuration ps)"
    using perm by (rule sum_list_mset_cong)
  finally have clock: "RR_clock ?qs ?n = sum_list (map BurstDuration ps)" .
  have a: "\<exists>rs aw at.
       RRSchedule (Suc (Suc k)) srt title ps =
         Some (Inr [outputTitle title,
                    outputSchedule rs aw at
                      (FDiv (Float64 (int (length ps)))
                            (Float64 (sint (sum_list (map BurstDuration ps)))))])"
    unfolding RR_result clock by simp
  have cur: "currentTime (scanned ?n ?ini) = sum_list (map BurstDuration ps)"
    unfolding RR_first_pass(5) by (rule clock)
  have "?n \<le> length (waiting (scanned ?n ?ini))" "?n \<le> length (rows (scanned ?n ?ini))"
    unfolding RR_filled by (simp_all add: rr_init_def)
  then have "currentTime (foldl (RR_row_body ?qs) (scanned ?n ?ini) [0..<?n]) =
      currentTime (scanned ?n ?ini)"
    using RR_row_fold [of ?n "scanned ?n ?ini" ?qs] by blast
  with cur have b: "\<exists>v1. RR_passes (Suc (Suc k)) ?n ?ini = Some v1
              \<and> currentTime v1 = sum_list (map BurstDuration ps)
              \<and> currentTime (foldl (RR_row_body ?qs) v1 [0..<?n]) = sum_list (map BurstDuration ps)"
    unfolding RR_first_pass(3) by simp
  have c: "sint (sum_list (map BurstDuration ps)) = (\<Sum>p\<leftarrow>ps. sint (BurstDuration p))"
    if "(\<Sum>p\<leftarrow>ps. sint (BurstDuration p)) < 2 ^ 63"
    using sint_sum_list [of "map BurstDuration ps"] assms(2) that
    by (simp add: comp_def)
  show ?thesis
    unfolding Let_def using a b c by blast
qed

theorem C10_RR_throughput_witness:
  "sort_Slice_ok insertion_sort less_burst
     [process ''P1'' 0 5 0, process ''P2'' 1 3 0, process ''P3'' 2 8 0]
   \<and> list_all (\<lambda>p. 0 \<le>s BurstDuration p)
        [process ''P1'' 0 5 0, process ''P2'' 1 3 0, process ''P3'' 2 8 0]
   \<and> (16::int) < 2 ^ 63
   \<and> sint (sum_list (map BurstDuration
        [process ''P1'' 0 5 0, process ''P2'' 1 3 0, process ''P3'' 2 8 0])) = 16
   \<and> (\<exists>rs aw at.
       RRSchedule 2 insertion_sort ''RR''
           [process ''P1'' 0 5 0, process ''P2'' 1 3 0, process ''P3'' 2 8 0] =
         Some (Inr [outputTitle ''RR'',
                    outputSchedule rs aw at (FDiv (Float64 3) (Float64 16))]))"
proof -
  let ?ps = "[process ''P1'' 0 5 0, process ''P2'' 1 3 0, process ''P3'' 2 8 0]"
  have ok: "sort_Slice_ok insertion_sort less_burst ?ps"
    by (rule insertion_sort_ok)
  have nonneg: "\<forall>p\<in>set ?ps. 0 \<le>s BurstDuration p"
    by (simp add: process_def word_sle_eq)
  have total: "(\<Sum>p\<leftarrow>?ps. sint (BurstDuration p)) = 16"
    by (simp add: process_def)
  have two: "Suc (Suc 0) = 2" by simp
  note inst = C10_RR_throughput [OF ok nonneg, of 0 "''RR''", unfolded two total]
  then have s: "sint (sum_list (map BurstDuration ?ps)) = 16"
    by simp
  have "\<exists>rs aw at.
       RRSchedule 2 insertion_sort ''RR'' ?ps =
         Some (Inr [outputTitle ''RR'',
                    outputSchedule rs aw at
                      (FDiv (Float64 (int (length ?ps)))
                            (Float64 (sint (sum_list (map BurstDuration ?ps)))))])"
    using inst by blast
  then have "\<exists>rs aw at.
       RRSchedule 2 insertion_sort ''RR'' ?ps =
         Some (Inr [outputTitle ''RR'', outputSchedule rs aw at (FDiv (Float64 3) (Float64 16))])"
    unfolding s by simp
  then show ?thesis
    using ok nonneg s by (simp add: list_all_iff)
qed

text \<open>
  Claim C10 as stated fails on a batch with a negative BurstDuration: the scan skips that
  process, so the clock ends at 5 while the bursts -2 and 5 sum to 3, and the throughput
  is 2 / 5.
\<close>

theorem C10_counterexample:
  "RRSchedule 2 insertion_sort ''RR'' [process ''A'' 0 (- 2) 0, process ''B'' 0 5 0] =
     Some (Inr [outputTitle ''RR'',
                outputSchedule
                  [[Sprint_string ''A'', Sprint_int64 0, Sprint_int64 (- 2), Sprint_int64 0,
                    Sprint_int64 2, Sprint_int64 0],
                   [Sprint_string ''B'', Sprint_int64 0, Sprint_int64 5, Sprint_int64 0,
                    Sprint_int64 0, Sprint_int64 5]]
                  (FDiv (Float64 2) (Float64 2)) (FDiv (Float64 5) (Float64 2))
                  (FDiv (Float64 2) (Float64 5))])
   \<and> sum_list (map BurstDuration [process ''A'' 0 (- 2) 0, process ''B'' 0 5 0]) = 3"
  by code_simp

end
